theory Spec2Isabelle
  imports Main "HOL-Library.Sublist"
begin

section \<open>Python values, exceptions and the world a render pass acts on\<close>

text \<open>
  The module \<^verbatim>\<open>solara/components/markdown.py\<close> renders Markdown to HTML and, for
  fences tagged \<^verbatim>\<open>solara\<close>, executes the fence body and embeds the resulting widget.
  Everything the module imports (pygments, the Python interpreter, ipyvuetify, the solara
  renderer, hashlib, the Markdown engines) is a parameter of the model; the functions of
  the module itself are translated line by line.

  A raised exception is a value: \<open>Exception c m\<close> is an instance of a class \<open>c\<close> deriving
  from Python's \<^verbatim>\<open>Exception\<close> with message \<open>m\<close>; \<open>BaseException c m\<close> an instance of a
  class deriving from \<^verbatim>\<open>BaseException\<close> only (\<^verbatim>\<open>SystemExit\<close>, \<^verbatim>\<open>KeyboardInterrupt\<close>),
  which \<^verbatim>\<open>except Exception\<close> does not catch.
\<close>

datatype py_exception =
    Exception string string
  | BaseException string string

text \<open>
  Python objects as far as the module looks into them: the objects the executed code
  creates are opaque (\<open>Object\<close>); the two elements the module builds itself are
  \<^verbatim>\<open>ExceptionGuard(children=...)\<close> and \<^verbatim>\<open>_AppLayoutEmbed(children=...)\<close>.
\<close>

datatype 'u pyval =
    Object 'u
  | ExceptionGuard_element "'u pyval list"
  | AppLayoutEmbed_element "'u pyval list"

type_synonym 'u scope = "string \<rightharpoonup> 'u pyval"

text \<open>
  The state a render pass can change: \<open>outside\<close> is everything executed code, a component
  call or the framework can touch (files, counters, the id generator); \<open>containers\<close> are
  the detached \<^verbatim>\<open>v.Html(tag="div")\<close> boxes created so far, each with its model id and the
  component tree rendered into it (\<open>None\<close> while nothing is); \<open>logged\<close> are the records
  of \<^verbatim>\<open>logger.exception\<close>.
\<close>

record ('s, 'u) world =
  outside :: 's
  containers :: "(string \<times> 'u pyval option) list"
  logged :: "(string \<times> py_exception) list"

datatype style_spec = StyleNone | StyleStr string | StyleDict "(string \<times> string) list"

text \<open>
  The collaborators. \<open>get_lexer_by_name\<close> returns the lexer or the message of the
  \<^verbatim>\<open>ClassNotFound\<close> it raises; \<open>pygments_highlight src lexer\<close> is
  \<^verbatim>\<open>pygments.highlight(src, lexer, HtmlFormatter())\<close>; \<open>py_compile\<close> is
  \<^verbatim>\<open>compile(code, "markdown", "exec")\<close>; \<open>py_exec ast scope\<close> is \<^verbatim>\<open>exec(ast, scope)\<close>
  and returns the scope as the code left it; \<open>py_call f\<close> is the call \<^verbatim>\<open>f()\<close>;
  \<open>Html_div\<close> creates the box and returns its \<^verbatim>\<open>_model_id\<close>; \<open>solara_render\<close> is
  \<^verbatim>\<open>solara.render(app, container=box)\<close>; \<open>py_repr\<close> is \<^verbatim>\<open>repr\<close> on an exception;
  \<open>sha256_hexdigest s\<close> is \<^verbatim>\<open>hashlib.sha256(s.encode("utf-8")).hexdigest()\<close>.
\<close>

record ('lx, 'ast, 's, 'u) host =
  get_lexer_by_name :: "string \<Rightarrow> string + 'lx"
  pygments_highlight :: "string \<Rightarrow> 'lx \<Rightarrow> string"
  py_compile :: "string \<Rightarrow> py_exception + 'ast"
  py_exec :: "'ast \<Rightarrow> 'u scope \<Rightarrow> 's \<Rightarrow> (py_exception + 'u scope) \<times> 's"
  py_call :: "'u pyval \<Rightarrow> 's \<Rightarrow> (py_exception + 'u pyval) \<times> 's"
  Html_div :: "'s \<Rightarrow> string \<times> 's"
  solara_render :: "'u pyval \<Rightarrow> 's \<Rightarrow> py_exception option \<times> 's"
  py_repr :: "py_exception \<Rightarrow> string"
  format_exception :: "py_exception \<Rightarrow> string"
  sha256_hexdigest :: "string \<Rightarrow> string"
  flatten_style :: "style_spec \<Rightarrow> string"

section \<open>The module\<close>

definition html_no_execute_enabled :: string where
  "html_no_execute_enabled = ''<div><i>Solara execution is not enabled</i></div>''"

subsection \<open>\<^verbatim>\<open>ExceptionGuard\<close> (lines 22 to 34)\<close>

text \<open>
  What the component shows, given the exception \<^verbatim>\<open>solara.use_exception()\<close> reports:
  the error card with the trace in a collapsible \<^verbatim>\<open>Details\<close>, or its children.
\<close>

datatype 'u guard_view =
    ErrorCard string string string
  | Returned "'u pyval"
  | Column "'u pyval list"

definition py_str_exception :: "py_exception \<Rightarrow> string" where
  "py_str_exception e = (case e of Exception c m \<Rightarrow> m | BaseException c m \<Rightarrow> m)"

definition ExceptionGuard ::
  "('lx, 'ast, 's, 'u) host \<Rightarrow> 'u pyval list \<Rightarrow> py_exception option \<Rightarrow> 'u guard_view" where
  "ExceptionGuard h children exception =
     (case exception of
        Some e \<Rightarrow>
          ErrorCard (''Oops, an error occurred: '' @ py_str_exception e)
            ''Exception details'' (format_exception h e)
      | None \<Rightarrow>
          if length children = 1 then Returned (children ! 0) else Column children)"

subsection \<open>\<^verbatim>\<open>_run_solara\<close> (lines 37 to 56)\<close>

definition widget_markup :: "string \<Rightarrow> string" where
  \<open>widget_markup widget_id =
     ''<div class="solara-markdown-output v-card v-sheet elevation-7">''
     @ ''<jupyter-widget widget="IPY_MODEL_'' @ widget_id @ ''">loading widget...</jupyter-widget>''
     @ ''<div class="v-messages">Live output</div></div>''\<close>

definition run_solara ::
  "('lx, 'ast, 's, 'u) host \<Rightarrow> string \<Rightarrow> ('s, 'u) world \<Rightarrow>
     (py_exception + string) \<times> ('s, 'u) world" where
  "run_solara h code w =
     (case py_compile h code of
        Inl e \<Rightarrow> (Inl e, w)
      | Inr ast \<Rightarrow>
          (case py_exec h ast Map.empty (outside w) of
             (Inl e, s1) \<Rightarrow> (Inl e, w\<lparr>outside := s1\<rparr>)
           | (Inr local_scope, s1) \<Rightarrow>
               (case
                  (case local_scope ''app'' of
                     Some app \<Rightarrow> (Inr app, s1)
                   | None \<Rightarrow>
                       (case local_scope ''Page'' of
                          Some Page \<Rightarrow>
                            (case py_call h Page s1 of
                               (Inl e, s2) \<Rightarrow> (Inl e, s2)
                             | (Inr page, s2) \<Rightarrow>
                                 (Inr (AppLayoutEmbed_element [ExceptionGuard_element [page]]), s2))
                        | None \<Rightarrow>
                            (Inl (Exception ''NameError'' ''No Page of app defined''), s1)))
                of
                  (Inl e, s2) \<Rightarrow> (Inl e, w\<lparr>outside := s2\<rparr>)
                | (Inr app, s2) \<Rightarrow>
                    (case Html_div h s2 of
                       (widget_id, s3) \<Rightarrow>
                         (case solara_render h app s3 of
                            (Some e, s4) \<Rightarrow>
                              (Inl e, w\<lparr>outside := s4,
                                         containers := containers w @ [(widget_id, None)]\<rparr>)
                          | (None, s4) \<Rightarrow>
                              (Inr (widget_markup widget_id),
                               w\<lparr>outside := s4,
                                 containers := containers w @ [(widget_id, Some app)]\<rparr>))))))"

subsection \<open>\<^verbatim>\<open>_highlight\<close> (lines 116 to 135)\<close>

definition highlight_fence ::
  "('lx, 'ast, 's, 'u) host \<Rightarrow> string \<Rightarrow> string \<Rightarrow> bool \<Rightarrow> string \<Rightarrow> ('s, 'u) world \<Rightarrow>
     (py_exception + string) \<times> ('s, 'u) world" where
  "highlight_fence h src language unsafe_solara_execute extra w =
     (let run_src_with_solara = (language = ''solara'');
          language = (if language = ''solara'' then ''python'' else language)
      in case get_lexer_by_name h language of
           Inl msg \<Rightarrow> (Inl (Exception ''ClassNotFound'' msg), w)
         | Inr lexer \<Rightarrow>
             (let html = pygments_highlight h src lexer
              in if run_src_with_solara then
                   (if unsafe_solara_execute then
                      (case run_solara h src w of
                         (Inl e, w') \<Rightarrow> (Inl e, w')
                       | (Inr html_widget, w') \<Rightarrow> (Inr (html @ html_widget), w'))
                    else (Inr (html @ html_no_execute_enabled), w))
                 else (Inr html, w)))"

subsection \<open>Strings: \<^verbatim>\<open>str.split\<close>, \<^verbatim>\<open>str.join\<close>, \<^verbatim>\<open>str\<close> and \<^verbatim>\<open>repr\<close>\<close>

definition newline :: char where
  "newline = CHR 0x0A"

text \<open>\<open>join sep parts\<close> is \<^verbatim>\<open>sep.join(parts)\<close>; \<open>split_lines text\<close> is \<^verbatim>\<open>text.split("\n")\<close>.\<close>

fun join :: "string \<Rightarrow> string list \<Rightarrow> string" where
  "join sep [] = []"
| "join sep [x] = x"
| "join sep (x # y # ys) = x @ sep @ join sep (y # ys)"

definition join_lines :: "string list \<Rightarrow> string" where
  "join_lines ls = join [newline] ls"

fun split_lines :: "string \<Rightarrow> string list" where
  "split_lines [] = [[]]"
| "split_lines (c # cs) =
     (let ls = split_lines cs
      in if c = newline then [] # ls else (c # hd ls) # tl ls)"

definition str_bool :: "bool \<Rightarrow> string" where
  "str_bool b = (if b then ''True'' else ''False'')"

definition digit_char :: "nat \<Rightarrow> char" where
  "digit_char d = ''0123456789'' ! d"

fun str_nat :: "nat \<Rightarrow> string" where
  "str_nat n = (if n < 10 then [digit_char n] else str_nat (n div 10) @ [digit_char (n mod 10)])"

declare str_nat.simps [simp del]

definition str_int :: "int \<Rightarrow> string" where
  "str_int i = (if i < 0 then CHR ''-'' # str_nat (nat (- i)) else str_nat (nat i))"

text \<open>\<^verbatim>\<open>repr\<close> of a list of ints: \<^verbatim>\<open>[1, 2, 3]\<close>.\<close>

definition repr_int_list :: "int list \<Rightarrow> string" where
  "repr_int_list xs = ''['' @ join '', '' (map str_int xs) @ '']''"

subsection \<open>\<^verbatim>\<open>textwrap.dedent\<close>\<close>

text \<open>
  The standard library's function, as CPython 3.13 and earlier define it: lines that hold
  only spaces and tabs are emptied (\<^verbatim>\<open>_whitespace_only_re.sub('', text)\<close>); the margin is
  computed by the loop over the leading blanks of the other lines
  (\<^verbatim>\<open>_leading_whitespace_re.findall(text)\<close>); a margin that is not empty is removed from
  the start of every line that has it (\<^verbatim>\<open>re.sub(r'(?m)^' + margin, '', text)\<close>).
\<close>

definition is_blank :: "char \<Rightarrow> bool" where
  "is_blank c = (c = CHR '' '' \<or> c = CHR 0x09)"

definition whitespace_only :: "string \<Rightarrow> bool" where
  "whitespace_only l = (l \<noteq> [] \<and> list_all is_blank l)"

definition empty_whitespace_only :: "string \<Rightarrow> string" where
  "empty_whitespace_only l = (if whitespace_only l then [] else l)"

definition leading_whitespace :: "string \<Rightarrow> string" where
  "leading_whitespace l = takeWhile is_blank l"

fun margin_loop :: "string option \<Rightarrow> string list \<Rightarrow> string option" where
  "margin_loop margin [] = margin"
| "margin_loop None (indent # indents) = margin_loop (Some indent) indents"
| "margin_loop (Some margin) (indent # indents) =
     (if prefix margin indent then margin_loop (Some margin) indents
      else if prefix indent margin then margin_loop (Some indent) indents
      else margin_loop (Some (longest_common_prefix margin indent)) indents)"

definition strip_margin :: "string \<Rightarrow> string \<Rightarrow> string" where
  "strip_margin margin l = (if prefix margin l then drop (length margin) l else l)"

definition dedent :: "string \<Rightarrow> string" where
  "dedent text =
     (let lines = map empty_whitespace_only (split_lines text);
          indents = map leading_whitespace (filter (\<lambda>l. l \<noteq> []) lines)
      in case margin_loop None indents of
           None \<Rightarrow> join_lines lines
         | Some margin \<Rightarrow>
             if margin \<noteq> [] then join_lines (map (strip_margin margin) lines)
             else join_lines lines)"

subsection \<open>\<^verbatim>\<open>_markdown_template\<close> (lines 59 to 113)\<close>

definition markdown_template :: "string \<Rightarrow> string \<Rightarrow> string" where
  \<open>markdown_template html style =
     join_lines
      ['''',
       ''<template>'',
       ''    <div class="solara-markdown rendered_html jp-RenderedHTMLCommon" style="'']
     @ style
     @ ''">''
     @ html
     @ join_lines
      [''</div>'',
       ''</template>'',
       '''',
       ''<script>'',
       ''module.exports = {'',
       ''    mounted() {'',
       ''        mermaid.init()'',
       ''        this.$el.querySelectorAll("a").forEach(a => this.setupRouter(a))'',
       ''        window.md = this.$el'',
       ''    },'',
       ''    methods: {'',
       ''        setupRouter(a) {'',
       ''            let href = a.attributes['href'].value;'',
       ''            if(href.startsWith("./")) {'',
       ''                // TODO: should we really do this?'',
       ''                href = location.pathname + href.substr(1);'',
       ''                a.attributes['href'].href = href;'',
       ''                // console.log("change href to", href);'',
       ''            }'',
       ''            if(href.startsWith("./") || href.startsWith("/")) {'',
       ''                // console.log("connect link with href=", href, "to router")'',
       ''                a.onclick = e => {'',
       ''                    console.log("clicked", href)'',
       ''                    if(href.startsWith("./")) {'',
       ''                        solara.router.push(href);'',
       ''                    } else {'',
       ''                        solara.router.push(href);'',
       ''                    }'',
       ''                    e.preventDefault()'',
       ''                }'',
       ''            } else if(href.startsWith("#")) {'',
       ''                // console.log("connect anchor with href=", href, "to custom javascript due to using <base>")'',
       ''                href = location.pathname + href;'',
       ''                a.attributes['href'].value = href;'',
       ''            } else {'',
       ''                console.log("href", href, "is not a local link")'',
       ''            }'',
       ''        }'',
       ''    },'',
       ''    updated() {'',
       ''        // if the html gets update, re-run mermaid'',
       ''        mermaid.init()'',
       ''    }'',
       ''}'',
       ''</script>'',
       ''    '']\<close>

subsection \<open>The Markdown engines\<close>

text \<open>
  Modelled from the spec: the Markdown engine (markdown-it for \<^verbatim>\<open>MarkdownIt\<close>,
  python-markdown with pymdownx.superfences for \<^verbatim>\<open>Markdown\<close>) is not part of the
  module. The spec describes it as a black-box tokenize+render collaborator with a
  pluggable fenced-block callback \<^verbatim>\<open>(code, lang, attrs) -> HTML\<close>, invoked once per fenced
  block in document order, whose snippets are substituted back into the token stream.
  A document is tokenized into fenced blocks (language tag, body, rest of the info
  string) and other content. \<open>route\<close> says which callback, if any, a language tag is
  handed to; a fence with no callback is rendered by the engine itself. An exception a
  callback raises leaves the engine: the render is aborted.
\<close>

datatype block =
    Fence string string string
  | Other string

record engine =
  tokenize :: "string \<Rightarrow> block list"
  render_other :: "string \<Rightarrow> string"
  fence_open :: "block \<Rightarrow> string \<Rightarrow> string"
  fence_close :: "block \<Rightarrow> string \<Rightarrow> string"
  builtin_fence :: "string \<Rightarrow> string \<Rightarrow> string"
  fence_div_format :: "string \<Rightarrow> string \<Rightarrow> string \<Rightarrow> string"

type_synonym ('s, 'u) fence_callback =
  "string \<Rightarrow> string \<Rightarrow> string \<Rightarrow> ('s, 'u) world \<Rightarrow> (py_exception + string) \<times> ('s, 'u) world"

fun engine_render ::
  "engine \<Rightarrow> (string \<Rightarrow> ('s, 'u) fence_callback option) \<Rightarrow> block list \<Rightarrow> ('s, 'u) world \<Rightarrow>
     (py_exception + string) \<times> ('s, 'u) world" where
  "engine_render E route [] w = (Inr [], w)"
| "engine_render E route (Other s # bs) w =
     (case engine_render E route bs w of
        (Inl e, w') \<Rightarrow> (Inl e, w')
      | (Inr rest, w') \<Rightarrow> (Inr (render_other E s @ rest), w'))"
| "engine_render E route (Fence lang body attrs # bs) w =
     (case route lang of
        None \<Rightarrow>
          (case engine_render E route bs w of
             (Inl e, w') \<Rightarrow> (Inl e, w')
           | (Inr rest, w') \<Rightarrow> (Inr (builtin_fence E lang body @ rest), w'))
      | Some callback \<Rightarrow>
          (case callback body lang attrs w of
             (Inl e, w1) \<Rightarrow> (Inl e, w1)
           | (Inr fragment, w1) \<Rightarrow>
               (case engine_render E route bs w1 of
                  (Inl e, w2) \<Rightarrow> (Inl e, w2)
                | (Inr rest, w2) \<Rightarrow>
                    (Inr (fence_open E (Fence lang body attrs) fragment @ fragment
                          @ fence_close E (Fence lang body attrs) fragment @ rest), w2))))"

subsection \<open>\<^verbatim>\<open>MarkdownIt\<close> (lines 138 to 161)\<close>

text \<open>
  The element the component returns: \<^verbatim>\<open>VuetifyTemplate.element(template=...).key(hash)\<close>.
\<close>

record markup_unit =
  template :: string
  key :: string

definition MarkdownIt_key ::
  "('lx, 'ast, 's, 'u) host \<Rightarrow> string \<Rightarrow> bool \<Rightarrow> int list \<Rightarrow> string" where
  "MarkdownIt_key h html unsafe_solara_execute highlight =
     sha256_hexdigest h (html @ str_bool unsafe_solara_execute @ repr_int_list highlight)"

text \<open>Lines 140 to 159: the HTML of the document.\<close>

definition MarkdownIt_html ::
  "('lx, 'ast, 's, 'u) host \<Rightarrow> engine \<Rightarrow> string \<Rightarrow> bool \<Rightarrow> ('s, 'u) world \<Rightarrow>
     (py_exception + string) \<times> ('s, 'u) world" where
  "MarkdownIt_html h E md_text unsafe_solara_execute w =
     (let md_text = dedent md_text;
          highlight_code = (\<lambda>code name attrs. highlight_fence h code name unsafe_solara_execute attrs)
      in engine_render E (\<lambda>name. Some highlight_code) (tokenize E md_text) w)"

text \<open>Lines 160 and 161: the hash and the element.\<close>

definition MarkdownIt ::
  "('lx, 'ast, 's, 'u) host \<Rightarrow> engine \<Rightarrow> string \<Rightarrow> int list \<Rightarrow> bool \<Rightarrow> ('s, 'u) world \<Rightarrow>
     (py_exception + markup_unit) \<times> ('s, 'u) world" where
  "MarkdownIt h E md_text highlight unsafe_solara_execute w =
     (case MarkdownIt_html h E md_text unsafe_solara_execute w of
        (Inl e, w') \<Rightarrow> (Inl e, w')
      | (Inr html, w') \<Rightarrow>
          (Inr \<lparr>template = markdown_template html [],
                key = MarkdownIt_key h html unsafe_solara_execute highlight\<rparr>, w'))"

subsection \<open>\<^verbatim>\<open>Markdown\<close> (lines 164 to 221)\<close>

text \<open>
  The inner function \<^verbatim>\<open>highlight\<close> of \<^verbatim>\<open>make_markdown_object\<close>: it catches every
  \<^verbatim>\<open>Exception\<close> of \<^verbatim>\<open>_highlight\<close>, logs it with the source and returns its \<^verbatim>\<open>repr\<close>.
\<close>

definition Markdown_highlight ::
  "('lx, 'ast, 's, 'u) host \<Rightarrow> bool \<Rightarrow> string \<Rightarrow> string \<Rightarrow> string \<Rightarrow> ('s, 'u) world \<Rightarrow>
     (py_exception + string) \<times> ('s, 'u) world" where
  "Markdown_highlight h unsafe_solara_execute src language extra w =
     (case highlight_fence h src language unsafe_solara_execute extra w of
        (Inr html, w') \<Rightarrow> (Inr html, w')
      | (Inl (Exception c m), w') \<Rightarrow>
          (Inr (py_repr h (Exception c m)),
           w'\<lparr>logged := logged w' @ [(''Error highlighting code: '' @ src, Exception c m)]\<rparr>)
      | (Inl (BaseException c m), w') \<Rightarrow> (Inl (BaseException c m), w'))"

text \<open>The \<^verbatim>\<open>custom_fences\<close> of the superfences configuration, by name.\<close>

definition custom_fences ::
  "('lx, 'ast, 's, 'u) host \<Rightarrow> engine \<Rightarrow> bool \<Rightarrow> (string \<times> ('s, 'u) fence_callback) list" where
  "custom_fences h E unsafe_solara_execute =
     [(''mermaid'', \<lambda>src language attrs w. (Inr (fence_div_format E src language ''mermaid''), w)),
      (''solara'', \<lambda>src language attrs. Markdown_highlight h unsafe_solara_execute src language [])]"

definition Markdown_key ::
  "('lx, 'ast, 's, 'u) host \<Rightarrow> string \<Rightarrow> bool \<Rightarrow> string" where
  "Markdown_key h html unsafe_solara_execute =
     sha256_hexdigest h (html @ str_bool unsafe_solara_execute)"

text \<open>Lines 180 to 217: the HTML of the document.\<close>

definition Markdown_html ::
  "('lx, 'ast, 's, 'u) host \<Rightarrow> engine \<Rightarrow> string \<Rightarrow> bool \<Rightarrow> ('s, 'u) world \<Rightarrow>
     (py_exception + string) \<times> ('s, 'u) world" where
  "Markdown_html h E md_text unsafe_solara_execute w =
     (let md_text = dedent md_text
      in engine_render E (map_of (custom_fences h E unsafe_solara_execute))
           (tokenize E md_text) w)"

text \<open>Lines 181, 220 and 221: the style, the hash and the element.\<close>

definition Markdown ::
  "('lx, 'ast, 's, 'u) host \<Rightarrow> engine \<Rightarrow> string \<Rightarrow> bool \<Rightarrow> style_spec \<Rightarrow> ('s, 'u) world \<Rightarrow>
     (py_exception + markup_unit) \<times> ('s, 'u) world" where
  "Markdown h E md_text unsafe_solara_execute style w =
     (let style = flatten_style h style
      in case Markdown_html h E md_text unsafe_solara_execute w of
           (Inl e, w') \<Rightarrow> (Inl e, w')
         | (Inr html, w') \<Rightarrow>
             (Inr \<lparr>template = markdown_template html style,
                   key = Markdown_key h html unsafe_solara_execute\<rparr>, w'))"

section \<open>Vocabulary of the properties\<close>

text \<open>A live fence is a fenced block tagged \<^verbatim>\<open>solara\<close>.\<close>

fun is_live_fence :: "block \<Rightarrow> bool" where
  "is_live_fence (Fence lang body attrs) = (lang = ''solara'')"
| "is_live_fence (Other s) = False"

text \<open>
  A widget reference is the tag \<^verbatim>\<open><jupyter-widget widget="IPY_MODEL_...">\<close>; it is
  recognised by its opening. \<open>occurrences t s\<close> counts the positions of \<open>s\<close> at which \<open>t\<close>
  starts.
\<close>

definition widget_ref_tag :: string where
  "widget_ref_tag = ''<jupyter-widget''"

fun occurrences :: "string \<Rightarrow> string \<Rightarrow> nat" where
  "occurrences t [] = 0"
| "occurrences t (c # cs) = (if prefix t (c # cs) then 1 else 0) + occurrences t cs"

text \<open>
  \<open>tag_safe s\<close>: no widget reference opens in \<open>s\<close>, and \<open>s\<close> does not end in the beginning
  of one (so that nothing appended to \<open>s\<close> completes a tag that \<open>s\<close> started).
\<close>

fun tag_safe :: "string \<Rightarrow> bool" where
  "tag_safe [] = True"
| "tag_safe (c # cs) =
     (\<not> prefix (c # cs) widget_ref_tag \<and> \<not> prefix widget_ref_tag (c # cs) \<and> tag_safe cs)"

text \<open>
  What the engine and the highlighter themselves contribute for the blocks of a document
  holds no part of a widget reference.
\<close>

fun block_tag_safe :: "('lx, 'ast, 's, 'u) host \<Rightarrow> engine \<Rightarrow> block \<Rightarrow> bool" where
  "block_tag_safe h E (Other s) = tag_safe (render_other E s)"
| "block_tag_safe h E (Fence lang body attrs) =
     (tag_safe (builtin_fence E lang body)
      \<and> tag_safe (fence_div_format E body lang ''mermaid'')
      \<and> (\<forall>lexer. tag_safe (pygments_highlight h body lexer))
      \<and> (\<forall>fragment. tag_safe (fence_open E (Fence lang body attrs) fragment)
                    \<and> tag_safe (fence_close E (Fence lang body attrs) fragment)))"

text \<open>Every line of a text with the same prefix put in front.\<close>

definition indent_lines :: "string \<Rightarrow> string \<Rightarrow> string" where
  "indent_lines p text = join_lines (map (\<lambda>l. p @ l) (split_lines text))"

text \<open>\<^verbatim>\<open>html.escape\<close>: the plain-escaped text of a source.\<close>

fun html_escape :: "string \<Rightarrow> string" where
  "html_escape [] = []"
| "html_escape (c # cs) =
     (if c = CHR ''&'' then ''&amp;''
      else if c = CHR ''<'' then ''&lt;''
      else if c = CHR ''>'' then ''&gt;''
      else if c = CHR 0x22 then ''&quot;''
      else if c = CHR 0x27 then ''&#x27;''
      else [c]) @ html_escape cs"

text \<open>Reading a decimal numeral back.\<close>

definition digit_value :: "char \<Rightarrow> nat" where
  "digit_value c = of_char c - 48"

definition nat_of_digits :: "string \<Rightarrow> nat" where
  "nat_of_digits s = foldl (\<lambda>a c. 10 * a + digit_value c) 0 s"

text \<open>Two inputs on which a digest collides.\<close>

definition collides :: "(string \<Rightarrow> string) \<Rightarrow> string \<Rightarrow> string \<Rightarrow> bool" where
  "collides digest x y = (x \<noteq> y \<and> digest x = digest y)"

text \<open>The exception line 48 raises.\<close>

definition NameError_no_entry_point :: py_exception where
  "NameError_no_entry_point = Exception ''NameError'' ''No Page of app defined''"

section \<open>A host and an engine to evaluate the model on\<close>

text \<open>
  A small instance of the collaborators, for evaluating the model on concrete documents.
  Lexers exist for \<^verbatim>\<open>python\<close> and \<^verbatim>\<open>text\<close>; the highlighter escapes the source into a
  \<^verbatim>\<open>highlight\<close> block. The interpreter runs programs whose lines are assignments
  \<^verbatim>\<open>name = value\<close> (binding the name) or \<^verbatim>\<open>raise Class\<close>; the outside state counts the
  statements executed and the boxes created, and the id of a box is drawn from it.
\<close>

definition demo_get_lexer :: "string \<Rightarrow> string + string" where
  "demo_get_lexer name =
     (if name = ''python'' \<or> name = ''text'' then Inr name
      else Inl (''no lexer for alias '' @ [CHR 0x27] @ name @ [CHR 0x27] @ '' found''))"

definition demo_highlight :: "string \<Rightarrow> string \<Rightarrow> string" where
  \<open>demo_highlight src lexer =
     ''<div class="highlight"><pre>'' @ html_escape src @ ''</pre></div>'' @ [newline]\<close>

definition demo_assignment :: "string \<Rightarrow> (string \<times> string) option" where
  "demo_assignment l =
     (let name = takeWhile (\<lambda>c. c \<noteq> CHR '' '') l;
          rest = dropWhile (\<lambda>c. c \<noteq> CHR '' '') l
      in if name \<noteq> [] \<and> prefix '' = '' rest then Some (name, drop 3 rest) else None)"

fun demo_exec_lines ::
  "string list \<Rightarrow> string scope \<Rightarrow> nat \<Rightarrow> (py_exception + string scope) \<times> nat" where
  "demo_exec_lines [] sc n = (Inr sc, n)"
| "demo_exec_lines (l # ls) sc n =
     (if l = [] then demo_exec_lines ls sc n
      else if prefix ''raise '' l then (Inl (Exception (drop 6 l) []), Suc n)
      else (case demo_assignment l of
              Some (name, v) \<Rightarrow> demo_exec_lines ls (sc(name \<mapsto> Object v)) (Suc n)
            | None \<Rightarrow> demo_exec_lines ls sc (Suc n)))"

definition demo_call :: "string pyval \<Rightarrow> nat \<Rightarrow> (py_exception + string pyval) \<times> nat" where
  "demo_call f n =
     (case f of
        Object v \<Rightarrow> (Inr (Object (v @ ''()'')), Suc n)
      | _ \<Rightarrow> (Inl (Exception ''TypeError'' ''object is not callable''), n))"

definition demo_repr :: "py_exception \<Rightarrow> string" where
  "demo_repr e =
     (case e of
        Exception c m \<Rightarrow>
          (let q = (if CHR 0x27 \<in> set m \<and> CHR 0x22 \<notin> set m then CHR 0x22 else CHR 0x27)
           in c @ ''('' @ [q] @ m @ [q] @ '')'')
      | BaseException c m \<Rightarrow> c @ ''()'')"

definition demo_flatten_style :: "style_spec \<Rightarrow> string" where
  "demo_flatten_style style =
     (case style of
        StyleNone \<Rightarrow> []
      | StyleStr s \<Rightarrow> s
      | StyleDict kvs \<Rightarrow> concat (map (\<lambda>(k, v). k @ '':'' @ v @ '';'') kvs))"

definition demo_host :: "(string, string, nat, string) host" where
  "demo_host =
     \<lparr>get_lexer_by_name = demo_get_lexer,
      pygments_highlight = demo_highlight,
      py_compile = (\<lambda>code. Inr code),
      py_exec = (\<lambda>ast sc n. demo_exec_lines (split_lines ast) sc n),
      py_call = demo_call,
      Html_div = (\<lambda>n. (''box'' @ str_nat n, Suc n)),
      solara_render = (\<lambda>app n. (None, n)),
      py_repr = demo_repr,
      format_exception = (\<lambda>e. ''Traceback (most recent call last):''),
      sha256_hexdigest = (\<lambda>s. s),
      flatten_style = demo_flatten_style\<rparr>"

text \<open>
  The engine: a line starting with three backquotes opens a fence tagged with the rest of
  the line, a line of three backquotes closes it; every other line is a paragraph.
\<close>

fun demo_scan :: "(string \<times> string list) option \<Rightarrow> string list \<Rightarrow> block list" where
  "demo_scan None [] = []"
| "demo_scan (Some (lang, acc)) [] = [Fence lang (concat (map (\<lambda>l. l @ [newline]) (rev acc))) []]"
| "demo_scan None (l # ls) =
     (if prefix ''```'' l then demo_scan (Some (drop 3 l, [])) ls
      else Other l # demo_scan None ls)"
| "demo_scan (Some (lang, acc)) (l # ls) =
     (if l = ''```'' then
        Fence lang (concat (map (\<lambda>l. l @ [newline]) (rev acc))) [] # demo_scan None ls
      else demo_scan (Some (lang, l # acc)) ls)"

definition demo_engine :: engine where
  \<open>demo_engine =
     \<lparr>tokenize = (\<lambda>md. demo_scan None (split_lines md)),
      render_other = (\<lambda>s. ''<p>'' @ html_escape s @ ''</p>'' @ [newline]),
      fence_open = (\<lambda>b fragment. ''<pre><code>''),
      fence_close = (\<lambda>b fragment. ''</code></pre>'' @ [newline]),
      builtin_fence = (\<lambda>lang body. ''<pre>'' @ html_escape body @ ''</pre>'' @ [newline]),
      fence_div_format = (\<lambda>src lang cls.
         ''<div class="'' @ cls @ ''">'' @ html_escape src @ ''</div>'')\<rparr>\<close>

definition demo_world :: "(nat, string) world" where
  "demo_world = \<lparr>outside = 0, containers = [], logged = []\<rparr>"

text \<open>Documents to evaluate on.\<close>

definition demo_doc_live :: string where
  "demo_doc_live = join_lines [''  Intro'', ''  ```solara'', ''  x = 1'', ''  ```'']"

definition demo_doc_plain :: string where
  "demo_doc_plain = join_lines [''    # Title'', ''    ```python'', ''    print(1)'', ''    ```'', ''    done'']"

definition demo_app_and_page :: string where
  "demo_app_and_page = join_lines [''app = Button'', ''Page = Counter'']"

definition demo_leaky_exec ::
  "string \<Rightarrow> string scope \<Rightarrow> nat \<Rightarrow> (py_exception + string scope) \<times> nat" where
  "demo_leaky_exec ast sc n =
     (case sc ''secret'' of
        None \<Rightarrow> py_exec demo_host ast sc n
      | Some v \<Rightarrow> (Inr (sc(''app'' \<mapsto> v)), n))"

definition demo_doc_flush :: string where
  "demo_doc_flush = join_lines [''# Title'', '''', ''  ```python'', ''  print(1)'', ''  ```'']"

text \<open>
  An engine that passes raw HTML through, as both engines are set up to do
  (\<^verbatim>\<open>"html": True\<close> at line 153; python-markdown does so by default), and documents that
  hold a widget tag written in raw HTML.
\<close>

definition demo_raw_engine :: engine where
  "demo_raw_engine = demo_engine\<lparr>render_other := (\<lambda>s. s @ [newline])\<rparr>"

definition demo_raw_tag :: string where
  \<open>demo_raw_tag = ''<jupyter-widget widget="IPY_MODEL_abc">x</jupyter-widget>''\<close>

definition demo_doc_raw_live :: string where
  "demo_doc_raw_live = join_lines [demo_raw_tag, ''```solara'', ''x = 1'', ''```'']"

definition demo_doc_raw_plain :: string where
  "demo_doc_raw_plain = join_lines [demo_raw_tag, ''```python'', ''print(1)'', ''```'']"


section \<open>Properties\<close>

subsection \<open>Widget references in strings; the engine's loop\<close>

lemma tag_safe_append: "tag_safe a \<Longrightarrow> tag_safe b \<Longrightarrow> tag_safe (a @ b)"
proof (induction a)
  case Nil
  then show ?case by simp
next
  case (Cons c a)
  have p1: "\<not> prefix (c # a @ b) widget_ref_tag"
  proof
    assume "prefix (c # a @ b) widget_ref_tag"
    then have "prefix (c # a) widget_ref_tag"
      by (metis append_Cons append_prefixD)
    with Cons.prems(1) show False by simp
  qed
  have p2: "\<not> prefix widget_ref_tag (c # a @ b)"
  proof
    assume "prefix widget_ref_tag (c # a @ b)"
    then have "prefix widget_ref_tag ((c # a) @ b)" by simp
    then have "prefix widget_ref_tag (c # a) \<or> (\<exists>us. widget_ref_tag = (c # a) @ us \<and> prefix us b)"
      unfolding prefix_append by blast
    then show False
    proof
      assume "prefix widget_ref_tag (c # a)"
      with Cons.prems(1) show False by simp
    next
      assume "\<exists>us. widget_ref_tag = (c # a) @ us \<and> prefix us b"
      then have "prefix (c # a) widget_ref_tag" by (auto simp: prefix_def)
      with Cons.prems(1) show False by simp
    qed
  qed
  from Cons have "tag_safe (a @ b)" by simp
  with p1 p2 show ?case by simp
qed

lemma tag_safe_drop: "tag_safe (a @ b) \<Longrightarrow> tag_safe b"
  by (induction a) auto

lemma tag_safe_no_widget_ref: "tag_safe s \<Longrightarrow> \<not> sublist widget_ref_tag s"
proof
  assume s: "tag_safe s" and "sublist widget_ref_tag s"
  then obtain ps ss where "s = ps @ widget_ref_tag @ ss" by (auto simp: sublist_def)
  with s have "tag_safe (widget_ref_tag @ ss)" using tag_safe_drop by blast
  then show False by (simp add: widget_ref_tag_def)
qed

lemma tag_safe_notice: "tag_safe html_no_execute_enabled"
  by (simp add: html_no_execute_enabled_def widget_ref_tag_def)

lemma engine_render_frame:
  assumes cb: "\<And>lang cb body attrs w r w'.
             route lang = Some cb \<Longrightarrow> cb body lang attrs w = (r, w') \<Longrightarrow> w' = w"
  shows "engine_render E route bs w = (r, w') \<Longrightarrow> w' = w"
proof (induction bs arbitrary: w r w')
  case Nil
  then show ?case by simp
next
  case (Cons b bs)
  show ?case
  proof (cases b)
    case (Other s)
    with Cons.prems Cons.IH show ?thesis
      by (auto split: prod.splits sum.splits)
  next
    case (Fence lang body attrs)
    show ?thesis
    proof (cases "route lang")
      case None
      with Fence Cons.prems Cons.IH show ?thesis
        by (auto split: prod.splits sum.splits)
    next
      case (Some callback)
      obtain r1 w1 where c: "callback body lang attrs w = (r1, w1)" by force
      with cb[OF Some c] have c': "callback body lang attrs w = (r1, w)" by simp
      from Cons.prems Fence Some c' Cons.IH show ?thesis
        by (auto split: prod.splits sum.splits)
    qed
  qed
qed

lemma engine_render_fragment:
  assumes "engine_render E route bs w = (Inr html, w')"
      and "Fence lang body attrs \<in> set bs"
      and "route lang = Some cb"
  shows "\<exists>fragment w1 w2. cb body lang attrs w1 = (Inr fragment, w2) \<and> sublist fragment html"
  using assms(1,2)
proof (induction bs arbitrary: w html w')
  case Nil
  then show ?case by simp
next
  case (Cons b bs)
  show ?case
  proof (cases "b = Fence lang body attrs")
    case True
    with Cons.prems(1) assms(3) obtain fragment w1 rest where
      f: "cb body lang attrs w = (Inr fragment, w1)"
      and h: "html = fence_open E (Fence lang body attrs) fragment @ fragment
                @ fence_close E (Fence lang body attrs) fragment @ rest"
      by (auto split: prod.splits sum.splits)
    have "sublist fragment html"
      unfolding h sublist_def by blast
    with f show ?thesis by blast
  next
    case False
    with Cons.prems(2) have mem: "Fence lang body attrs \<in> set bs" by simp
    from Cons.prems(1) obtain w1 rest pre where
      r: "engine_render E route bs w1 = (Inr rest, w')" and h: "html = pre @ rest"
      by (cases b; cases "route (case b of Fence l _ _ \<Rightarrow> l | Other _ \<Rightarrow> [])")
         (auto split: prod.splits sum.splits)
    from Cons.IH[OF r mem] obtain fragment wa wb where
      "cb body lang attrs wa = (Inr fragment, wb)" "sublist fragment rest" by blast
    moreover have "sublist rest html" unfolding h by (simp add: sublist_def) (metis append_Nil2)
    ultimately show ?thesis using sublist_order.order_trans by blast
  qed
qed

lemma engine_render_tag_safe:
  assumes "engine_render E route bs w = (Inr html, w')"
      and "\<forall>b\<in>set bs. block_tag_safe h E b"
      and cb: "\<And>lang cb body attrs w1 fragment w2.
             route lang = Some cb \<Longrightarrow> Fence lang body attrs \<in> set bs \<Longrightarrow>
             cb body lang attrs w1 = (Inr fragment, w2) \<Longrightarrow> tag_safe fragment"
  shows "tag_safe html"
  using assms
proof (induction bs arbitrary: w html w')
  case Nil
  then show ?case by simp
next
  case (Cons b bs)
  have IH: "\<And>w html w'. engine_render E route bs w = (Inr html, w') \<Longrightarrow> tag_safe html"
    using Cons.IH Cons.prems(2,3) by (metis list.set_intros(2))
  show ?case
  proof (cases b)
    case (Other s)
    with Cons.prems(1) obtain rest w1 where
      r: "engine_render E route bs w = (Inr rest, w1)" and h: "html = render_other E s @ rest"
      by (auto split: prod.splits sum.splits)
    from Cons.prems(2) Other have "tag_safe (render_other E s)" by simp
    with IH[OF r] h show ?thesis by (simp add: tag_safe_append)
  next
    case (Fence lang body attrs)
    from Cons.prems(2) Fence have safe: "block_tag_safe h E (Fence lang body attrs)" by simp
    show ?thesis
    proof (cases "route lang")
      case None
      with Cons.prems(1) Fence obtain rest w1 where
        r: "engine_render E route bs w = (Inr rest, w1)"
        and h: "html = builtin_fence E lang body @ rest"
        by (auto split: prod.splits sum.splits)
      from safe have "tag_safe (builtin_fence E lang body)" by simp
      with IH[OF r] h show ?thesis by (simp add: tag_safe_append)
    next
      case (Some callback)
      with Cons.prems(1) Fence obtain fragment w1 rest w2 where
        c: "callback body lang attrs w = (Inr fragment, w1)"
        and r: "engine_render E route bs w1 = (Inr rest, w2)"
        and h: "html = fence_open E (Fence lang body attrs) fragment @ fragment
                  @ fence_close E (Fence lang body attrs) fragment @ rest"
        by (auto split: prod.splits sum.splits)
      have "tag_safe fragment"
        using Cons.prems(3)[OF Some _ c] Fence by simp
      moreover from safe have "tag_safe (fence_open E (Fence lang body attrs) fragment)"
        and "tag_safe (fence_close E (Fence lang body attrs) fragment)" by simp_all
      ultimately show ?thesis using IH[OF r] h by (simp add: tag_safe_append)
    qed
  qed
qed

lemma highlight_fence_disabled_world:
  "highlight_fence h src language False extra w = (r, w') \<Longrightarrow> w' = w"
  by (auto simp: highlight_fence_def Let_def split: sum.splits if_splits)

lemma highlight_fence_disabled_live:
  "highlight_fence h src ''solara'' False extra w = (Inr fragment, w') \<Longrightarrow>
   \<exists>lexer. get_lexer_by_name h ''python'' = Inr lexer
     \<and> fragment = pygments_highlight h src lexer @ html_no_execute_enabled"
  by (auto simp: highlight_fence_def Let_def split: sum.splits if_splits)

lemma highlight_fence_disabled_safe:
  "\<forall>lexer. tag_safe (pygments_highlight h src lexer) \<Longrightarrow>
   highlight_fence h src language False extra w = (Inr fragment, w') \<Longrightarrow> tag_safe fragment"
  by (auto simp: highlight_fence_def Let_def tag_safe_append tag_safe_notice
           split: sum.splits if_splits)

lemma highlight_fence_disabled_host:
  "get_lexer_by_name h' = get_lexer_by_name h \<Longrightarrow> pygments_highlight h' = pygments_highlight h \<Longrightarrow>
   highlight_fence h' src language False extra = highlight_fence h src language False extra"
  by (rule ext) (auto simp: highlight_fence_def Let_def split: sum.splits)

lemma disabled_render:
  assumes live: "Fence ''solara'' body attrs \<in> set bs"
      and frame: "\<And>lang cb body attrs w r w'.
             route lang = Some cb \<Longrightarrow> cb body lang attrs w = (r, w') \<Longrightarrow> w' = w"
      and solara: "\<exists>cb. route ''solara'' = Some cb \<and>
             (\<forall>src attrs w fragment w'. cb src ''solara'' attrs w = (Inr fragment, w') \<longrightarrow>
                sublist html_no_execute_enabled fragment)"
      and safe_cb: "\<And>lang cb body attrs w1 fragment w2.
             route lang = Some cb \<Longrightarrow> block_tag_safe h E (Fence lang body attrs) \<Longrightarrow>
             cb body lang attrs w1 = (Inr fragment, w2) \<Longrightarrow> tag_safe fragment"
  shows "snd (engine_render E route bs w) = w
       \<and> (\<forall>html. fst (engine_render E route bs w) = Inr html \<longrightarrow>
             sublist html_no_execute_enabled html
             \<and> ((\<forall>b\<in>set bs. block_tag_safe h E b) \<longrightarrow> \<not> sublist widget_ref_tag html))"
proof (intro conjI allI impI)
  show "snd (engine_render E route bs w) = w"
    by (rule engine_render_frame[where route = route and r = "fst (engine_render E route bs w)"])
       (auto dest: frame)
  fix html assume "fst (engine_render E route bs w) = Inr html"
  then obtain w' where r: "engine_render E route bs w = (Inr html, w')"
    by (cases "engine_render E route bs w") auto
  from solara obtain cb where cb: "route ''solara'' = Some cb"
    and n: "\<And>src attrs w fragment w'. cb src ''solara'' attrs w = (Inr fragment, w') \<Longrightarrow>
              sublist html_no_execute_enabled fragment" by blast
  from engine_render_fragment[OF r live cb] obtain fragment w1 w2 where
    f: "cb body ''solara'' attrs w1 = (Inr fragment, w2)" and s: "sublist fragment html" by blast
  from n[OF f] s show "sublist html_no_execute_enabled html"
    using sublist_order.order_trans by blast
  assume safe: "\<forall>b\<in>set bs. block_tag_safe h E b"
  have "tag_safe html"
  proof (rule engine_render_tag_safe[OF r safe])
    fix lang cb body attrs w1 fragment w2
    assume c: "route lang = Some cb" and m: "Fence lang body attrs \<in> set bs"
      and e: "cb body lang attrs w1 = (Inr fragment, w2)"
    from safe m have "block_tag_safe h E (Fence lang body attrs)" by blast
    from safe_cb[OF c this e] show "tag_safe fragment" .
  qed
  then show "\<not> sublist widget_ref_tag html" by (rule tag_safe_no_widget_ref)
qed

lemma sublist_notice: "sublist html_no_execute_enabled (a @ html_no_execute_enabled)"
  by (metis append_Nil2 sublist_def)

lemma Markdown_highlight_disabled:
  "get_lexer_by_name h ''python'' = Inr lexer \<Longrightarrow>
   Markdown_highlight h False src ''solara'' extra w =
     (Inr (pygments_highlight h src lexer @ html_no_execute_enabled), w)"
  by (simp add: Markdown_highlight_def highlight_fence_def)

lemma custom_fences_route:
  "map_of (custom_fences h E u) lang = Some cb \<Longrightarrow>
     (lang = ''mermaid'' \<and> cb = (\<lambda>src language attrs w. (Inr (fence_div_format E src language ''mermaid''), w)))
   \<or> (lang = ''solara'' \<and> cb = (\<lambda>src language attrs. Markdown_highlight h u src language []))"
  by (auto simp: custom_fences_def split: if_splits)

lemma custom_fences_disabled_host:
  "get_lexer_by_name h ''python'' = Inr lexer \<Longrightarrow>
   get_lexer_by_name h' = get_lexer_by_name h \<Longrightarrow> pygments_highlight h' = pygments_highlight h \<Longrightarrow>
   engine_render E (map_of (custom_fences h' E False)) bs w =
   engine_render E (map_of (custom_fences h E False)) bs w"
proof (induction bs arbitrary: w)
  case Nil
  then show ?case by simp
next
  case (Cons b bs)
  show ?case
  proof (cases b)
    case (Other s)
    with Cons show ?thesis by simp
  next
    case (Fence lang body attrs)
    have "lang = ''solara'' \<or> lang = ''mermaid'' \<or> (lang \<noteq> ''solara'' \<and> lang \<noteq> ''mermaid'')" by blast
    then show ?thesis
      using Cons Fence
      by (auto simp: custom_fences_def Markdown_highlight_disabled)
  qed
qed

lemma engine_render_pure:
  assumes "\<And>lang cb body attrs w w'.
             route lang = Some cb \<Longrightarrow> Fence lang body attrs \<in> set bs \<Longrightarrow>
             cb body lang attrs w = (fst (cb body lang attrs w'), w)"
  shows "engine_render E route bs w = (fst (engine_render E route bs w'), w)"
  using assms
proof (induction bs arbitrary: w w')
  case Nil
  then show ?case by simp
next
  case (Cons b bs)
  have IH: "\<And>w w'. engine_render E route bs w = (fst (engine_render E route bs w'), w)"
    using Cons.IH Cons.prems by (metis list.set_intros(2))
  show ?case
  proof (cases b)
    case (Other s)
    show ?thesis
      using IH[of w w'] Other
      by (cases "engine_render E route bs w'") (auto split: sum.splits)
  next
    case (Fence lang body attrs)
    show ?thesis
    proof (cases "route lang")
      case None
      show ?thesis
        using IH[of w w'] Fence None
        by (cases "engine_render E route bs w'") (auto split: sum.splits)
    next
      case (Some callback)
      have c: "callback body lang attrs w = (fst (callback body lang attrs w'), w)"
        using Cons.prems[OF Some, of body attrs w w'] Fence by simp
      obtain f w1 where c': "callback body lang attrs w' = (f, w1)" by force
      show ?thesis
        using IH[of w w1] c c' Fence Some
        by (cases "engine_render E route bs w1") (auto split: sum.splits)
    qed
  qed
qed

lemma highlight_fence_not_live:
  "language \<noteq> ''solara'' \<Longrightarrow>
   highlight_fence h src language u extra w =
     (case get_lexer_by_name h language of
        Inl msg \<Rightarrow> Inl (Exception ''ClassNotFound'' msg)
      | Inr lexer \<Rightarrow> Inr (pygments_highlight h src lexer), w)"
  by (simp add: highlight_fence_def split: sum.splits)

lemma MarkdownIt_html_no_live:
  assumes "\<forall>b\<in>set (tokenize E (dedent md_text)). \<not> is_live_fence b"
  shows "MarkdownIt_html h E md_text u w = (fst (MarkdownIt_html h E md_text u w'), w)"
  unfolding MarkdownIt_html_def Let_def
proof (rule engine_render_pure)
  fix lang cb body attrs w w'
  assume "Some (\<lambda>code name. highlight_fence h code name u) = Some cb"
    and "Fence lang body attrs \<in> set (tokenize E (dedent md_text))"
  with assms have "lang \<noteq> ''solara''" and "cb = (\<lambda>code name. highlight_fence h code name u)"
    by auto
  then show "cb body lang attrs w = (fst (cb body lang attrs w'), w)"
    by (simp add: highlight_fence_not_live)
qed

lemma Markdown_html_no_live:
  assumes "\<forall>b\<in>set (tokenize E (dedent md_text)). \<not> is_live_fence b"
  shows "Markdown_html h E md_text u w = (fst (Markdown_html h E md_text u w'), w)"
  unfolding Markdown_html_def Let_def
proof (rule engine_render_pure)
  fix lang cb body attrs w w'
  assume r: "map_of (custom_fences h E u) lang = Some cb"
    and "Fence lang body attrs \<in> set (tokenize E (dedent md_text))"
  with assms have "lang \<noteq> ''solara''" by auto
  with r show "cb body lang attrs w = (fst (cb body lang attrs w'), w)"
    by (auto simp: custom_fences_def split: if_splits)
qed

lemma tag_safe_not_prefix: "tag_safe (c # a) \<Longrightarrow> \<not> prefix widget_ref_tag (c # a @ b)"
proof
  assume s: "tag_safe (c # a)" and "prefix widget_ref_tag (c # a @ b)"
  then have "prefix widget_ref_tag ((c # a) @ b)" by simp
  then have "prefix widget_ref_tag (c # a) \<or> (\<exists>us. widget_ref_tag = (c # a) @ us \<and> prefix us b)"
    unfolding prefix_append by blast
  then have "prefix widget_ref_tag (c # a) \<or> prefix (c # a) widget_ref_tag"
    by (auto simp: prefix_def)
  with s show False by auto
qed

lemma occurrences_tag_safe: "tag_safe a \<Longrightarrow> occurrences widget_ref_tag (a @ b) = occurrences widget_ref_tag b"
proof (induction a)
  case Nil
  then show ?case by simp
next
  case (Cons c a)
  from Cons.prems have "\<not> prefix widget_ref_tag (c # a @ b)" by (rule tag_safe_not_prefix)
  moreover from Cons have "occurrences widget_ref_tag (a @ b) = occurrences widget_ref_tag b" by simp
  ultimately show ?case by simp
qed

lemma occurrences_no_lt:
  "CHR ''<'' \<notin> set a \<Longrightarrow> occurrences ''<jupyter-widget'' (a @ b) = occurrences ''<jupyter-widget'' b"
  by (induction a) auto

lemma occurrences_widget_markup:
  "CHR ''<'' \<notin> set widget_id \<Longrightarrow> occurrences widget_ref_tag (widget_markup widget_id) = 1"
  unfolding widget_markup_def widget_ref_tag_def
  by (simp add: occurrences_no_lt)

lemma engine_render_append:
  "engine_render E route (xs @ ys) w =
     (case engine_render E route xs w of
        (Inl e, w') \<Rightarrow> (Inl e, w')
      | (Inr a, w') \<Rightarrow>
          (case engine_render E route ys w' of
             (Inl e, w'') \<Rightarrow> (Inl e, w'')
           | (Inr b, w'') \<Rightarrow> (Inr (a @ b), w'')))"
proof (induction xs arbitrary: w)
  case Nil
  then show ?case by (simp split: prod.splits sum.splits)
next
  case (Cons x xs)
  show ?case
  proof (cases x)
    case (Other s)
    then show ?thesis by (simp add: Cons split: prod.splits sum.splits)
  next
    case (Fence lang body attrs)
    then show ?thesis
      by (cases "route lang") (simp_all add: Cons split: prod.splits sum.splits)
  qed
qed

lemma MarkdownIt_html_fence_abort:
  assumes doc: "tokenize E (dedent md_text) = pre @ Fence ''solara'' src attrs # post"
      and nolive: "\<forall>b\<in>set pre. \<not> is_live_fence b"
      and pre_ok: "fst (engine_render E (\<lambda>name. Some (\<lambda>code name attrs. highlight_fence h code name u attrs)) pre w) = Inr html_pre"
      and cb: "highlight_fence h src ''solara'' u attrs w = (Inl e, w1)"
  shows "MarkdownIt_html h E md_text u w = (Inl e, w1)"
proof -
  let ?route = "\<lambda>name::string. Some (\<lambda>code name attrs. highlight_fence h code name u attrs)"
  have "engine_render E ?route pre w = (fst (engine_render E ?route pre w), w)"
  proof (rule engine_render_pure)
    fix lang cb body attrs w w'
    assume "?route lang = Some cb" and "Fence lang body attrs \<in> set pre"
    with nolive have "lang \<noteq> ''solara''" and "cb = (\<lambda>code name. highlight_fence h code name u)"
      by auto
    then show "cb body lang attrs w = (fst (cb body lang attrs w'), w)"
      by (simp add: highlight_fence_not_live)
  qed
  with pre_ok have "engine_render E ?route pre w = (Inr html_pre, w)" by simp
  then show ?thesis
    by (simp add: MarkdownIt_html_def doc engine_render_append cb)
qed

lemma custom_fences_lookup:
  "map_of (custom_fences h E u) lang =
     (if lang = ''mermaid''
      then Some (\<lambda>src language attrs w. (Inr (fence_div_format E src language ''mermaid''), w))
      else if lang = ''solara''
      then Some (\<lambda>src language attrs. Markdown_highlight h u src language [])
      else None)"
  by (simp add: custom_fences_def)

lemma Markdown_render_no_live:
  "\<forall>b\<in>set bs. \<not> is_live_fence b \<Longrightarrow>
   \<exists>html. \<forall>w. engine_render E (map_of (custom_fences h E u)) bs w = (Inr html, w)"
proof (induction bs)
  case Nil
  then show ?case by simp
next
  case (Cons b bs)
  define route where "route = map_of (custom_fences h E u)"
  from Cons obtain rest where
    r: "\<And>w. engine_render E route bs w = (Inr rest, w)" unfolding route_def by auto
  have "\<exists>html. \<forall>w. engine_render E route (b # bs) w = (Inr html, w)"
  proof (cases b)
    case (Other s)
    with r show ?thesis by simp
  next
    case (Fence lang body attrs)
    with Cons.prems have "lang \<noteq> ''solara''" by simp
    then have "route lang = None
        \<or> route lang = Some (\<lambda>src language attrs w. (Inr (fence_div_format E src language ''mermaid''), w))"
      by (simp add: route_def custom_fences_lookup)
    with r Fence show ?thesis by auto
  qed
  then show ?case unfolding route_def .
qed

lemma Markdown_html_fence_fragment:
  assumes doc: "tokenize E (dedent md_text) = pre @ Fence ''solara'' src attrs # post"
      and nolive: "\<forall>b\<in>set pre. \<not> is_live_fence b"
      and cb: "Markdown_highlight h u src ''solara'' [] w = (Inr fragment, w1)"
  shows "\<exists>html_pre. Markdown_html h E md_text u w =
           (case engine_render E (map_of (custom_fences h E u)) post w1 of
              (Inl e, w') \<Rightarrow> (Inl e, w')
            | (Inr rest, w') \<Rightarrow>
                (Inr (html_pre @ fence_open E (Fence ''solara'' src attrs) fragment @ fragment
                      @ fence_close E (Fence ''solara'' src attrs) fragment @ rest), w'))"
proof -
  define route where "route = map_of (custom_fences h E u)"
  from Markdown_render_no_live[OF nolive] obtain html_pre where
    p: "engine_render E route pre w = (Inr html_pre, w)" unfolding route_def by blast
  have s: "route ''solara'' = Some (\<lambda>src language attrs. Markdown_highlight h u src language [])"
    by (simp add: route_def custom_fences_lookup)
  have "Markdown_html h E md_text u w = engine_render E route (pre @ Fence ''solara'' src attrs # post) w"
    by (simp add: Markdown_html_def doc route_def)
  also have "\<dots> = (case engine_render E route post w1 of
              (Inl e, w') \<Rightarrow> (Inl e, w')
            | (Inr rest, w') \<Rightarrow>
                (Inr (html_pre @ fence_open E (Fence ''solara'' src attrs) fragment @ fragment
                      @ fence_close E (Fence ''solara'' src attrs) fragment @ rest), w'))"
    by (simp add: engine_render_append p s cb split: prod.splits sum.splits)
  finally show ?thesis unfolding route_def by blast
qed

subsection \<open>Lines, and \<^verbatim>\<open>textwrap.dedent\<close> on indented text\<close>

lemma split_lines_not_Nil: "split_lines t \<noteq> []"
  by (induction t) (auto simp: Let_def)

lemma join_Cons_Cons: "join sep ((c # y) # ys) = c # join sep (y # ys)"
  by (cases ys) auto

lemma join_split_lines: "join_lines (split_lines t) = t"
proof (induction t)
  case Nil
  then show ?case by (simp add: join_lines_def)
next
  case (Cons c cs)
  obtain y ys where ls: "split_lines cs = y # ys"
    using split_lines_not_Nil[of cs] by (cases "split_lines cs") auto
  with Cons show ?case
    by (auto simp: join_lines_def Let_def join_Cons_Cons)
qed

lemma split_lines_no_newline: "l \<in> set (split_lines t) \<Longrightarrow> newline \<notin> set l"
proof (induction t arbitrary: l)
  case Nil
  then show ?case by simp
next
  case (Cons c cs)
  obtain y ys where ls: "split_lines cs = y # ys"
    using split_lines_not_Nil[of cs] by (cases "split_lines cs") auto
  with Cons show ?case
    by (auto simp: Let_def split: if_splits)
qed

lemma split_lines_single: "newline \<notin> set l \<Longrightarrow> split_lines l = [l]"
  by (induction l) (auto simp: Let_def)

lemma split_lines_append: "newline \<notin> set l \<Longrightarrow> split_lines (l @ newline # rest) = l # split_lines rest"
  by (induction l) (auto simp: Let_def)

lemma split_join_lines:
  "ls \<noteq> [] \<Longrightarrow> \<forall>l\<in>set ls. newline \<notin> set l \<Longrightarrow> split_lines (join_lines ls) = ls"
proof (induction ls rule: join.induct[where ?a0.0 = "[newline]"])
  case 1
  then show ?case by simp
next
  case (2 x)
  then show ?case by (simp add: join_lines_def split_lines_single)
next
  case (3 x y ys)
  then show ?case by (simp add: join_lines_def split_lines_append)
qed

lemma is_blank_not_newline: "is_blank c \<Longrightarrow> c \<noteq> newline"
  by (auto simp: is_blank_def newline_def)

lemma blank_no_newline: "\<forall>c\<in>set p. is_blank c \<Longrightarrow> newline \<notin> set p"
  using is_blank_not_newline by blast

lemma split_lines_indent:
  assumes "\<forall>c\<in>set p. is_blank c"
  shows "split_lines (indent_lines p t) = map (\<lambda>l. p @ l) (split_lines t)"
  unfolding indent_lines_def
  using assms split_lines_no_newline[of _ t] blank_no_newline[OF assms]
  by (intro split_join_lines) (auto simp: split_lines_not_Nil)

lemma empty_whitespace_only_indent:
  assumes "\<forall>c\<in>set p. is_blank c"
  shows "empty_whitespace_only (p @ l) =
           (if empty_whitespace_only l = [] then [] else p @ empty_whitespace_only l)"
  using assms
  by (cases "l = []") (auto simp: empty_whitespace_only_def whitespace_only_def list_all_iff)

lemma leading_whitespace_indent:
  "\<forall>c\<in>set p. is_blank c \<Longrightarrow> leading_whitespace (p @ l) = p @ leading_whitespace l"
  by (simp add: leading_whitespace_def takeWhile_append2)

lemma longest_common_prefix_append:
  "longest_common_prefix (p @ a) (p @ b) = p @ longest_common_prefix a b"
  by (induction p) auto

lemma margin_loop_indent:
  "margin_loop (Some (p @ m)) (map (\<lambda>i. p @ i) indents) =
     map_option (\<lambda>m. p @ m) (margin_loop (Some m) indents)"
  by (induction indents arbitrary: m) (auto simp: longest_common_prefix_append)

lemma margin_loop_None_indent:
  "margin_loop None (map (\<lambda>i. p @ i) indents) =
     map_option (\<lambda>m. p @ m) (margin_loop None indents)"
  by (cases indents) (auto simp: margin_loop_indent)

lemma margin_loop_None_Nil: "margin_loop None indents = None \<longleftrightarrow> indents = []"
proof -
  have "margin_loop (Some m) xs \<noteq> None" for m xs
    by (induction xs arbitrary: m) auto
  then show ?thesis by (cases indents) auto
qed

lemma strip_margin_indent:
  "prefix m l \<Longrightarrow> strip_margin (p @ m) (p @ l) = strip_margin m l"
  by (simp add: strip_margin_def)

lemma margin_loop_prefix:
  "margin_loop (Some m0) indents = Some m \<Longrightarrow> prefix m m0 \<and> (\<forall>i\<in>set indents. prefix m i)"
proof (induction indents arbitrary: m0)
  case Nil
  then show ?case by simp
next
  case (Cons i indents)
  show ?case
  proof (cases "prefix m0 i")
    case True
    with Cons.prems have "margin_loop (Some m0) indents = Some m" by simp
    from Cons.IH[OF this] True show ?thesis by (auto intro: prefix_order.trans)
  next
    case False
    show ?thesis
    proof (cases "prefix i m0")
      case True
      with False Cons.prems have "margin_loop (Some i) indents = Some m" by simp
      from Cons.IH[OF this] True show ?thesis by (auto intro: prefix_order.trans)
    next
      case notp: False
      with False Cons.prems
      have "margin_loop (Some (longest_common_prefix m0 i)) indents = Some m" by simp
      from Cons.IH[OF this] show ?thesis
        using longest_common_prefix_prefix1[of m0 i] longest_common_prefix_prefix2[of m0 i]
        by (auto intro: prefix_order.trans)
    qed
  qed
qed

lemma margin_loop_None_prefix:
  "margin_loop None indents = Some m \<Longrightarrow> \<forall>i\<in>set indents. prefix m i"
  by (cases indents) (auto dest: margin_loop_prefix)

lemma leading_whitespace_prefix: "prefix (leading_whitespace l) l"
  by (simp add: leading_whitespace_def prefix_def) (metis takeWhile_dropWhile_id)

lemma dedent_indent_lines:
  assumes blank: "\<forall>c\<in>set p. is_blank c"
  shows "dedent (indent_lines p text) = dedent text"
proof -
  define L where "L = map empty_whitespace_only (split_lines text)"
  define ind where "ind = (\<lambda>l::string. if l = [] then [] else p @ l)"
  define I where "I = map leading_whitespace (filter (\<lambda>l. l \<noteq> []) L)"
  have L': "map empty_whitespace_only (split_lines (indent_lines p text)) = map ind L"
    by (simp add: split_lines_indent[OF blank] L_def ind_def empty_whitespace_only_indent[OF blank] comp_def)
  have F: "filter (\<lambda>l. l \<noteq> []) (map ind L) = map (\<lambda>l. p @ l) (filter (\<lambda>l. l \<noteq> []) L)"
    by (induction L) (auto simp: ind_def)
  have I': "map leading_whitespace (filter (\<lambda>l. l \<noteq> []) (map ind L)) = map (\<lambda>i. p @ i) I"
    by (simp add: F I_def leading_whitespace_indent[OF blank] comp_def)
  have lhs: "dedent (indent_lines p text) =
       (case margin_loop None (map (\<lambda>i. p @ i) I) of
          None \<Rightarrow> join_lines (map ind L)
        | Some margin \<Rightarrow>
            if margin \<noteq> [] then join_lines (map (strip_margin margin) (map ind L))
            else join_lines (map ind L))"
    unfolding dedent_def Let_def L' I' by (rule refl)
  have rhs: "dedent text =
       (case margin_loop None I of
          None \<Rightarrow> join_lines L
        | Some margin \<Rightarrow>
            if margin \<noteq> [] then join_lines (map (strip_margin margin) L) else join_lines L)"
    unfolding dedent_def Let_def L_def I_def by (rule refl)
  show ?thesis
  proof (cases "margin_loop None I")
    case None
    then have "I = []" by (simp add: margin_loop_None_Nil)
    then have "filter (\<lambda>l. l \<noteq> []) L = []" by (simp add: I_def)
    then have "\<forall>l\<in>set L. l = []" by (simp add: filter_empty_conv)
    then have "map ind L = L" by (intro map_idI) (auto simp: ind_def)
    with None show ?thesis by (simp add: lhs rhs margin_loop_None_indent)
  next
    case (Some m)
    have pre: "prefix m l" if "l \<in> set L" "l \<noteq> []" for l
    proof -
      from that have "leading_whitespace l \<in> set I" by (auto simp: I_def)
      with margin_loop_None_prefix[OF Some] have "prefix m (leading_whitespace l)" by blast
      with leading_whitespace_prefix[of l] show ?thesis by (meson prefix_order.trans)
    qed
    have strip: "map (strip_margin (p @ m)) (map ind L) = map (strip_margin m) L" if "m \<noteq> []"
    proof -
      have "strip_margin (p @ m) (ind l) = strip_margin m l" if "l \<in> set L" for l
      proof (cases "l = []")
        case True
        with \<open>m \<noteq> []\<close> show ?thesis by (simp add: ind_def strip_margin_def)
      next
        case False
        with pre[OF that] show ?thesis by (simp add: ind_def strip_margin_indent)
      qed
      then show ?thesis by simp
    qed
    have unind: "map (strip_margin p) (map ind L) = L"
    proof -
      have "strip_margin p (ind l) = l" for l
        by (cases "l = []") (auto simp: ind_def strip_margin_def)
      then show ?thesis by (simp add: comp_def)
    qed
    have pnil: "map ind L = L" if "p = []"
      using that by (intro map_idI) (auto simp: ind_def)
    from Some show ?thesis
      by (auto simp: lhs rhs margin_loop_None_indent strip unind pnil simp del: map_map)
  qed
qed

subsection \<open>\<^verbatim>\<open>str\<close> and \<^verbatim>\<open>repr\<close> are injective\<close>

lemma digit_cases: "d < 10 \<Longrightarrow> d \<in> {0, 1, 2, 3, 4, 5, 6, 7, 8, 9::nat}"
  by auto

lemma digit_value_digit_char: "d < 10 \<Longrightarrow> digit_value (digit_char d) = d"
  using digit_cases[of d] by (auto simp: digit_value_def digit_char_def)

lemma digit_char_in: "d < 10 \<Longrightarrow> digit_char d \<in> set ''0123456789''"
  using digit_cases[of d] by (auto simp: digit_char_def)

lemma nat_of_digits_str_nat: "nat_of_digits (str_nat n) = n"
proof (induction n rule: str_nat.induct)
  case (1 n)
  show ?case
  proof (cases "n < 10")
    case True
    then show ?thesis
      by (subst str_nat.simps) (simp add: nat_of_digits_def digit_value_digit_char)
  next
    case False
    with 1 have "nat_of_digits (str_nat (n div 10)) = n div 10" by simp
    with False show ?thesis
      by (subst str_nat.simps) (simp add: nat_of_digits_def digit_value_digit_char)
  qed
qed

lemma str_nat_inj: "str_nat n = str_nat m \<Longrightarrow> n = m"
  by (metis nat_of_digits_str_nat)

lemma str_nat_digits: "set (str_nat n) \<subseteq> set ''0123456789''"
proof (induction n rule: str_nat.induct)
  case (1 n)
  show ?case
  proof (cases "n < 10")
    case True
    then show ?thesis
      using digit_char_in[of n] by (subst str_nat.simps) simp
  next
    case False
    with 1 have "set (str_nat (n div 10)) \<subseteq> set ''0123456789''" by simp
    with False show ?thesis
      using digit_char_in[of "n mod 10"] by (subst str_nat.simps) simp
  qed
qed

lemma str_nat_not_Nil: "str_nat n \<noteq> []"
  by (subst str_nat.simps) simp

lemma str_nat_no: "c \<notin> set ''0123456789'' \<Longrightarrow> c \<notin> set (str_nat n)"
  using str_nat_digits[of n] by blast

lemma str_nat_no_minus: "CHR ''-'' \<notin> set (str_nat n)"
  by (rule str_nat_no) simp

lemma str_nat_hd: "hd (str_nat n) \<noteq> CHR ''-''"
  using str_nat_no_minus[of n] str_nat_not_Nil[of n] by (cases "str_nat n") auto

lemma str_int_inj: "str_int i = str_int j \<Longrightarrow> i = j"
proof -
  assume e: "str_int i = str_int j"
  show ?thesis
  proof (cases "i < 0")
    case True
    show ?thesis
    proof (cases "j < 0")
      case jn: True
      with True e have "str_nat (nat (- i)) = str_nat (nat (- j))" by (simp add: str_int_def)
      then have "nat (- i) = nat (- j)" by (rule str_nat_inj)
      with True jn show ?thesis by simp
    next
      case False
      with True e have "CHR ''-'' # str_nat (nat (- i)) = str_nat (nat j)" by (simp add: str_int_def)
      then have "hd (str_nat (nat j)) = CHR ''-''" by (metis list.sel(1))
      with str_nat_hd show ?thesis by blast
    qed
  next
    case False
    show ?thesis
    proof (cases "j < 0")
      case True
      with False e have "str_nat (nat i) = CHR ''-'' # str_nat (nat (- j))" by (simp add: str_int_def)
      then have "hd (str_nat (nat i)) = CHR ''-''" by (metis list.sel(1))
      with str_nat_hd show ?thesis by blast
    next
      case jp: False
      with False e have "str_nat (nat i) = str_nat (nat j)" by (simp add: str_int_def)
      then have "nat i = nat j" by (rule str_nat_inj)
      with False jp show ?thesis by simp
    qed
  qed
qed

lemma str_int_not_Nil: "str_int i \<noteq> []"
  by (simp add: str_int_def str_nat_not_Nil)

lemma str_int_no: "c \<notin> set ''-0123456789'' \<Longrightarrow> c \<notin> set (str_int i)"
proof -
  assume c: "c \<notin> set ''-0123456789''"
  then have d: "c \<notin> set ''0123456789''" and m: "c \<noteq> CHR ''-''" by simp_all
  show ?thesis
  proof (cases "i < 0")
    case True
    with str_nat_no[OF d, of "nat (- i)"] m show ?thesis by (simp add: str_int_def)
  next
    case False
    with str_nat_no[OF d, of "nat i"] show ?thesis by (simp add: str_int_def)
  qed
qed

lemma str_int_no_comma: "CHR '','' \<notin> set (str_int i)"
  by (rule str_int_no) simp

lemma join_Cons: "join sep (x # xs) = x @ (if xs = [] then [] else sep @ join sep xs)"
  by (cases xs) auto

lemma sep_split:
  assumes "c \<notin> set x" "c \<notin> set y" "r = [] \<or> hd r = c" "r' = [] \<or> hd r' = c"
      and "x @ r = y @ r'"
  shows "x = y \<and> r = r'"
  using assms
proof (induction x arbitrary: y)
  case Nil
  then show ?case by (cases y) auto
next
  case (Cons a x)
  show ?case
  proof (cases y)
    case Nil
    with Cons.prems show ?thesis by auto
  next
    case (Cons b y')
    with Cons.prems Cons.IH[of y'] show ?thesis by auto
  qed
qed

lemma join_str_int_inj:
  "join '', '' (map str_int xs) = join '', '' (map str_int ys) \<Longrightarrow> xs = ys"
proof (induction xs arbitrary: ys)
  case Nil
  then show ?case
    by (cases ys) (auto simp: join_Cons str_int_not_Nil)
next
  case (Cons x xs)
  show ?case
  proof (cases ys)
    case Nil
    with Cons.prems show ?thesis by (auto simp: join_Cons str_int_not_Nil)
  next
    case (Cons y ys')
    let ?r = "if map str_int xs = [] then [] else '', '' @ join '', '' (map str_int xs)"
    let ?r' = "if map str_int ys' = [] then [] else '', '' @ join '', '' (map str_int ys')"
    from Cons.prems Cons have e: "str_int x @ ?r = str_int y @ ?r'"
      by (simp add: join_Cons)
    have "str_int x = str_int y \<and> ?r = ?r'"
      by (rule sep_split[where c = "CHR '',''", OF _ _ _ _ e]) (auto simp: str_int_no_comma)
    then have xy: "x = y" and r: "?r = ?r'" by (auto dest: str_int_inj)
    have "xs = ys'"
    proof (cases "xs = []")
      case True
      with r show ?thesis by (cases ys') (auto split: if_splits)
    next
      case False
      with r have "ys' \<noteq> []" by (auto split: if_splits)
      with r False have "join '', '' (map str_int xs) = join '', '' (map str_int ys')" by simp
      then show ?thesis by (rule Cons.IH)
    qed
    with xy Cons show ?thesis by simp
  qed
qed

lemma repr_int_list_inj: "repr_int_list xs = repr_int_list ys \<Longrightarrow> xs = ys"
  by (auto simp: repr_int_list_def dest: join_str_int_inj)

lemma last_split:
  assumes "c \<notin> set ys" "c \<notin> set ys'" "xs @ c # ys = xs' @ c # ys'"
  shows "xs = xs' \<and> ys = ys'"
proof -
  from assms(3) have "rev (xs @ c # ys) = rev (xs' @ c # ys')" by simp
  then have e: "rev ys @ (c # rev xs) = rev ys' @ (c # rev xs')" by simp
  have "rev ys = rev ys' \<and> c # rev xs = c # rev xs'"
    by (rule sep_split[where c = c, OF _ _ _ _ e]) (use assms(1,2) in auto)
  then show ?thesis by simp
qed

lemma join_str_int_no_bracket: "CHR ''['' \<notin> set (join '', '' (map str_int xs))"
proof (induction xs)
  case Nil
  then show ?case by simp
next
  case (Cons x xs)
  have "CHR ''['' \<notin> set (str_int x)" by (rule str_int_no) simp
  with Cons show ?case by (simp add: join_Cons)
qed

lemma str_bool_suffix: "html @ str_bool u = html' @ str_bool u' \<Longrightarrow> html = html' \<and> u = u'"
proof -
  assume e: "html @ str_bool u = html' @ str_bool u'"
  then have r: "rev (str_bool u) @ rev html = rev (str_bool u') @ rev html'"
    by (metis rev_append)
  have "u = u'"
  proof (rule ccontr)
    assume "u \<noteq> u'"
    then have "(u \<and> \<not> u') \<or> (\<not> u \<and> u')" by blast
    with r show False by (auto simp: str_bool_def)
  qed
  with e show ?thesis by simp
qed

lemma hashed_string_inj:
  "html @ str_bool u @ repr_int_list hl = html' @ str_bool u' @ repr_int_list hl' \<Longrightarrow>
   html = html' \<and> u = u' \<and> hl = hl'"
proof -
  let ?B = "join '', '' (map str_int hl)" and ?B' = "join '', '' (map str_int hl')"
  assume "html @ str_bool u @ repr_int_list hl = html' @ str_bool u' @ repr_int_list hl'"
  then have e: "(html @ str_bool u) @ CHR ''['' # (?B @ '']'') = (html' @ str_bool u') @ CHR ''['' # (?B' @ '']'')"
    by (simp add: repr_int_list_def)
  have "html @ str_bool u = html' @ str_bool u' \<and> ?B @ '']'' = ?B' @ '']''"
    by (rule last_split[OF _ _ e]) (simp_all add: join_str_int_no_bracket)
  then have "html @ str_bool u = html' @ str_bool u'" and "?B = ?B'" by simp_all
  then show ?thesis using str_bool_suffix join_str_int_inj by blast
qed

text \<open>Rendering depends on the callbacks only at the fences of the document.\<close>

lemma engine_render_cong:
  assumes "\<And>lang body attrs. Fence lang body attrs \<in> set bs \<Longrightarrow>
             rel_option (\<lambda>cb cb'. \<forall>w. cb body lang attrs w = cb' body lang attrs w)
               (route lang) (route' lang)"
  shows "engine_render E route bs w = engine_render E route' bs w"
  using assms
proof (induction bs arbitrary: w)
  case Nil
  then show ?case by simp
next
  case (Cons b bs)
  have IH: "engine_render E route bs w = engine_render E route' bs w" for w
  proof (rule Cons.IH)
    fix lang body attrs
    assume "Fence lang body attrs \<in> set bs"
    then have "Fence lang body attrs \<in> set (b # bs)" by simp
    then show "rel_option (\<lambda>cb cb'. \<forall>w. cb body lang attrs w = cb' body lang attrs w)
               (route lang) (route' lang)"
      by (rule Cons.prems)
  qed
  show ?case
  proof (cases b)
    case (Other s)
    then show ?thesis by (simp add: IH)
  next
    case (Fence lang body attrs)
    have r: "rel_option (\<lambda>cb cb'. \<forall>w. cb body lang attrs w = cb' body lang attrs w)
               (route lang) (route' lang)"
      using Cons.prems[of lang body attrs] Fence by simp
    show ?thesis
    proof (cases "route lang")
      case None
      with r have "route' lang = None" by (cases "route' lang") auto
      with None Fence show ?thesis by (simp add: IH)
    next
      case (Some cb)
      with r obtain cb' where s: "route' lang = Some cb'"
        and e: "\<And>w. cb body lang attrs w = cb' body lang attrs w"
        by (cases "route' lang") auto
      from Some s Fence show ?thesis by (simp add: IH e split: prod.splits sum.splits)
    qed
  qed
qed

lemma MarkdownIt_html_no_live_host:
  assumes nolive: "\<forall>b\<in>set (tokenize E (dedent md_text)). \<not> is_live_fence b"
      and lx: "get_lexer_by_name h' = get_lexer_by_name h"
      and pyg: "pygments_highlight h' = pygments_highlight h"
  shows "MarkdownIt_html h' E md_text u' w = MarkdownIt_html h E md_text u w"
  unfolding MarkdownIt_html_def Let_def
proof (rule engine_render_cong)
  fix lang body attrs
  assume "Fence lang body attrs \<in> set (tokenize E (dedent md_text))"
  with nolive have "lang \<noteq> ''solara''" by auto
  then show "rel_option (\<lambda>cb cb'. \<forall>w. cb body lang attrs w = cb' body lang attrs w)
               (Some (\<lambda>code name attrs. highlight_fence h' code name u' attrs))
               (Some (\<lambda>code name attrs. highlight_fence h code name u attrs))"
    by (simp add: highlight_fence_not_live lx pyg split: sum.splits)
qed

lemma Markdown_html_no_live_host:
  assumes nolive: "\<forall>b\<in>set (tokenize E (dedent md_text)). \<not> is_live_fence b"
  shows "Markdown_html h' E md_text u' w = Markdown_html h E md_text u w"
  unfolding Markdown_html_def Let_def
proof (rule engine_render_cong)
  fix lang body attrs
  assume "Fence lang body attrs \<in> set (tokenize E (dedent md_text))"
  with nolive have "lang \<noteq> ''solara''" by auto
  then have e: "map_of (custom_fences h' E u') lang = map_of (custom_fences h E u) lang"
    by (simp only: custom_fences_lookup if_False)
  show "rel_option (\<lambda>cb cb'. \<forall>w. cb body lang attrs w = cb' body lang attrs w)
               (map_of (custom_fences h' E u') lang) (map_of (custom_fences h E u) lang)"
    unfolding e by (cases "map_of (custom_fences h E u) lang") simp_all
qed

text \<open>A digest of 64 characters cannot tell all highlight-line lists apart.\<close>

lemma key_collision_exists:
  assumes len: "\<And>s. length (sha256_hexdigest h s) = 64"
  shows "\<exists>hl hl'. hl \<noteq> hl' \<and> MarkdownIt_key h html u hl = MarkdownIt_key h html u hl'"
proof (rule ccontr)
  assume "\<not> ?thesis"
  then have "inj (\<lambda>hl. MarkdownIt_key h html u hl)" by (auto simp: inj_on_def)
  moreover have "range (\<lambda>hl. MarkdownIt_key h html u hl) \<subseteq> {s. length s = 64}"
    by (auto simp: MarkdownIt_key_def len)
  moreover have "finite {s::string. length s = 64}"
    using finite_lists_length_eq[of "UNIV :: char set" 64] by simp
  ultimately have "finite (UNIV :: int list set)"
    by (meson finite_imageD finite_subset)
  then show False using infinite_UNIV_listI by blast
qed






subsection \<open>The highlight-line list and the template\<close>

text \<open>
  Claim C10. For the \<^verbatim>\<open>MarkdownIt\<close> component the rendered markup does not depend on the
  \<^verbatim>\<open>highlight\<close> argument: for every text, execution flag and world, and any two
  highlight-line lists, the two renders fail alike or produce the same template, and leave
  the same world. The HTML is computed without the list (\<open>MarkdownIt_html\<close> does not take
  it); the list enters the identity key only.
\<close>

theorem MarkdownIt_template_ignores_highlight:
  "map_sum id template (fst (MarkdownIt h E md_text highlight1 unsafe w)) =
   map_sum id template (fst (MarkdownIt h E md_text highlight2 unsafe w))
   \<and> snd (MarkdownIt h E md_text highlight1 unsafe w) =
     snd (MarkdownIt h E md_text highlight2 unsafe w)
   \<and> map_sum id key (fst (MarkdownIt h E md_text highlight1 unsafe w)) =
     map_sum id (\<lambda>html. MarkdownIt_key h html unsafe highlight1)
       (fst (MarkdownIt_html h E md_text unsafe w))"
  by (simp add: MarkdownIt_def split: prod.splits sum.splits)

subsection \<open>Execution disabled\<close>

text \<open>
  Claim C2, as amended. For every document that contains a live fence, rendered with
  execution disabled: the render changes nothing in the world (no code is run, no box is created,
  nothing is logged); it is the same render whatever the interpreter, the component call
  and the framework would do (any host \<open>h'\<close> with the same lexers and highlighter), so the
  fence body is neither compiled nor run; the HTML, when the render returns one, contains
  the notice \<^verbatim>\<open><div><i>Solara execution is not enabled</i></div>\<close>; and the module adds no
  widget reference: the HTML contains none where the engine and the highlighter contribute
  no part of one themselves. This holds for
  \<^verbatim>\<open>MarkdownIt\<close>, and for \<^verbatim>\<open>Markdown\<close> where the lexer \<^verbatim>\<open>python\<close> is registered (without
  it, the callback of \<^verbatim>\<open>Markdown\<close> logs the failure of the lookup).
\<close>

theorem execution_disabled_notice:
  assumes live: "Fence ''solara'' body attrs \<in> set (tokenize E (dedent md_text))"
      and lx: "get_lexer_by_name h' = get_lexer_by_name h"
      and pyg: "pygments_highlight h' = pygments_highlight h"
  shows "(snd (MarkdownIt_html h E md_text False w) = w
          \<and> MarkdownIt_html h' E md_text False w = MarkdownIt_html h E md_text False w
          \<and> (\<forall>html. fst (MarkdownIt_html h E md_text False w) = Inr html \<longrightarrow>
                sublist ''<div><i>Solara execution is not enabled</i></div>'' html
                \<and> ((\<forall>b\<in>set (tokenize E (dedent md_text)). block_tag_safe h E b) \<longrightarrow>
                     \<not> sublist ''<jupyter-widget'' html)))
       \<and> ((\<exists>lexer. get_lexer_by_name h ''python'' = Inr lexer) \<longrightarrow>
          snd (Markdown_html h E md_text False w) = w
          \<and> Markdown_html h' E md_text False w = Markdown_html h E md_text False w
          \<and> (\<forall>html. fst (Markdown_html h E md_text False w) = Inr html \<longrightarrow>
                sublist ''<div><i>Solara execution is not enabled</i></div>'' html
                \<and> ((\<forall>b\<in>set (tokenize E (dedent md_text)). block_tag_safe h E b) \<longrightarrow>
                     \<not> sublist ''<jupyter-widget'' html)))"
proof -
  let ?bs = "tokenize E (dedent md_text)"
  let ?route = "\<lambda>name::string. Some (\<lambda>code name attrs. highlight_fence h code name False attrs)"
  have it: "MarkdownIt_html h E md_text False w = engine_render E ?route ?bs w"
    by (simp add: MarkdownIt_html_def)
  have "snd (engine_render E ?route ?bs w) = w
       \<and> (\<forall>html. fst (engine_render E ?route ?bs w) = Inr html \<longrightarrow>
             sublist html_no_execute_enabled html
             \<and> ((\<forall>b\<in>set ?bs. block_tag_safe h E b) \<longrightarrow> \<not> sublist widget_ref_tag html))"
  proof (rule disabled_render[OF live])
    show "\<exists>cb. ?route ''solara'' = Some cb \<and>
             (\<forall>src attrs w fragment w'. cb src ''solara'' attrs w = (Inr fragment, w') \<longrightarrow>
                sublist html_no_execute_enabled fragment)"
      by (auto dest!: highlight_fence_disabled_live simp: sublist_notice)
  qed (auto dest: highlight_fence_disabled_world highlight_fence_disabled_safe)
  then have it1: "snd (MarkdownIt_html h E md_text False w) = w"
    and it3: "\<forall>html. fst (MarkdownIt_html h E md_text False w) = Inr html \<longrightarrow>
                sublist html_no_execute_enabled html
                \<and> ((\<forall>b\<in>set ?bs. block_tag_safe h E b) \<longrightarrow> \<not> sublist widget_ref_tag html)"
    unfolding it by blast+
  have it2: "MarkdownIt_html h' E md_text False w = MarkdownIt_html h E md_text False w"
    by (simp add: MarkdownIt_html_def highlight_fence_disabled_host[OF lx pyg])
  have md_part: "snd (Markdown_html h E md_text False w) = w
          \<and> Markdown_html h' E md_text False w = Markdown_html h E md_text False w
          \<and> (\<forall>html. fst (Markdown_html h E md_text False w) = Inr html \<longrightarrow>
                sublist html_no_execute_enabled html
                \<and> ((\<forall>b\<in>set ?bs. block_tag_safe h E b) \<longrightarrow> \<not> sublist widget_ref_tag html))"
    if python: "get_lexer_by_name h ''python'' = Inr lexer" for lexer
  proof -
  let ?route = "map_of (custom_fences h E False)"
  have md: "Markdown_html h E md_text False w = engine_render E ?route ?bs w"
    by (simp add: Markdown_html_def)
  have "snd (engine_render E ?route ?bs w) = w
       \<and> (\<forall>html. fst (engine_render E ?route ?bs w) = Inr html \<longrightarrow>
             sublist html_no_execute_enabled html
             \<and> ((\<forall>b\<in>set ?bs. block_tag_safe h E b) \<longrightarrow> \<not> sublist widget_ref_tag html))"
  proof (rule disabled_render[OF live])
    show "\<exists>cb. ?route ''solara'' = Some cb \<and>
             (\<forall>src attrs w fragment w'. cb src ''solara'' attrs w = (Inr fragment, w') \<longrightarrow>
                sublist html_no_execute_enabled fragment)"
      by (auto simp: custom_fences_def Markdown_highlight_disabled[OF python] sublist_notice)
  next
    fix lang cb body attrs w r w'
    assume "?route lang = Some cb" and "cb body lang attrs w = (r, w')"
    then show "w' = w"
      by (auto dest!: custom_fences_route simp: Markdown_highlight_disabled[OF python])
  next
    fix lang cb body attrs w1 fragment w2
    assume "?route lang = Some cb" and "block_tag_safe h E (Fence lang body attrs)"
      and "cb body lang attrs w1 = (Inr fragment, w2)"
    then show "tag_safe fragment"
      by (auto dest!: custom_fences_route
               simp: Markdown_highlight_disabled[OF python] tag_safe_append tag_safe_notice)
  qed
  then show ?thesis
    unfolding md
    using custom_fences_disabled_host[OF python lx pyg, of E ?bs w]
    by (simp add: Markdown_html_def)
  qed
  have notice: "html_no_execute_enabled = ''<div><i>Solara execution is not enabled</i></div>''"
    by (simp add: html_no_execute_enabled_def)
  have tag: "widget_ref_tag = ''<jupyter-widget''" by (rule widget_ref_tag_def)
  from it1 it2 it3 md_part show ?thesis unfolding notice[symmetric] tag[symmetric] by blast
qed


text \<open>
  The claim as stated fails where the document itself holds a widget tag in raw HTML,
  which the engine passes through: the document below has a live fence; with execution
  disabled, nothing is run, the notice is there, and so is the tag.
\<close>

theorem execution_disabled_notice_counterexample:
  "tokenize demo_raw_engine (dedent demo_doc_raw_live) =
     [Other demo_raw_tag, Fence ''solara'' (''x = 1'' @ [newline]) []]
   \<and> fst (MarkdownIt_html demo_host demo_raw_engine demo_doc_raw_live False demo_world) =
     Inr (demo_raw_tag @ [newline] @ ''<pre><code>''
          @ demo_highlight (''x = 1'' @ [newline]) ''python'' @ html_no_execute_enabled
          @ ''</code></pre>'' @ [newline])
   \<and> sublist ''<jupyter-widget''
        (demo_raw_tag @ [newline] @ ''<pre><code>''
          @ demo_highlight (''x = 1'' @ [newline]) ''python'' @ html_no_execute_enabled
          @ ''</code></pre>'' @ [newline])
   \<and> snd (MarkdownIt_html demo_host demo_raw_engine demo_doc_raw_live False demo_world) = demo_world
   \<and> fst (Markdown_html demo_host demo_raw_engine demo_doc_raw_live False demo_world) =
       fst (MarkdownIt_html demo_host demo_raw_engine demo_doc_raw_live False demo_world)"
  by code_simp

theorem execution_disabled_notice_witness:
  "Fence ''solara'' (''x = 1'' @ [newline]) [] \<in> set (tokenize demo_engine (dedent demo_doc_live))
   \<and> fst (MarkdownIt_html demo_host demo_engine demo_doc_live False demo_world) =
       Inr (''<p>Intro</p>'' @ [newline] @ ''<pre><code>''
            @ demo_highlight (''x = 1'' @ [newline]) ''python'' @ html_no_execute_enabled
            @ ''</code></pre>'' @ [newline])
   \<and> snd (MarkdownIt_html demo_host demo_engine demo_doc_live False demo_world) = demo_world
   \<and> MarkdownIt_html (demo_host\<lparr>py_compile := \<lambda>code. Inl (Exception ''SyntaxError'' [])\<rparr>)
         demo_engine demo_doc_live False demo_world =
       MarkdownIt_html demo_host demo_engine demo_doc_live False demo_world
   \<and> sublist ''<div><i>Solara execution is not enabled</i></div>''
        (''<p>Intro</p>'' @ [newline] @ ''<pre><code>''
            @ demo_highlight (''x = 1'' @ [newline]) ''python'' @ html_no_execute_enabled
            @ ''</code></pre>'' @ [newline])
   \<and> \<not> sublist ''<jupyter-widget''
        (''<p>Intro</p>'' @ [newline] @ ''<pre><code>''
            @ demo_highlight (''x = 1'' @ [newline]) ''python'' @ html_no_execute_enabled
            @ ''</code></pre>'' @ [newline])
   \<and> fst (Markdown_html demo_host demo_engine demo_doc_live False demo_world) =
       Inr (''<p>Intro</p>'' @ [newline] @ ''<pre><code>''
            @ demo_highlight (''x = 1'' @ [newline]) ''python'' @ html_no_execute_enabled
            @ ''</code></pre>'' @ [newline])
   \<and> snd (Markdown_html demo_host demo_engine demo_doc_live False demo_world) = demo_world"
proof -
  let ?h' = "demo_host\<lparr>py_compile := \<lambda>code. Inl (Exception ''SyntaxError'' [])\<rparr>"
  let ?html = "''<p>Intro</p>'' @ [newline] @ ''<pre><code>''
            @ demo_highlight (''x = 1'' @ [newline]) ''python'' @ html_no_execute_enabled
            @ ''</code></pre>'' @ [newline]"
  have tok: "tokenize demo_engine (dedent demo_doc_live) =
        [Other ''Intro'', Fence ''solara'' (''x = 1'' @ [newline]) []]"
    by code_simp
  have live: "Fence ''solara'' (''x = 1'' @ [newline]) []
        \<in> set (tokenize demo_engine (dedent demo_doc_live))"
    unfolding tok by simp
  have lx: "get_lexer_by_name ?h' = get_lexer_by_name demo_host" by simp
  have pyg: "pygments_highlight ?h' = pygments_highlight demo_host" by simp
  have python: "\<exists>lexer. get_lexer_by_name demo_host ''python'' = Inr lexer"
    by (simp add: demo_host_def demo_get_lexer_def)
  have ok: "fst (MarkdownIt_html demo_host demo_engine demo_doc_live False demo_world) = Inr ?html"
    by code_simp
  have okm: "fst (Markdown_html demo_host demo_engine demo_doc_live False demo_world) = Inr ?html"
    by code_simp
  have safe: "\<forall>b\<in>set (tokenize demo_engine (dedent demo_doc_live)).
        block_tag_safe demo_host demo_engine b"
    unfolding tok
    by (simp add: demo_host_def demo_engine_def demo_highlight_def widget_ref_tag_def newline_def)
  note T = execution_disabled_notice[OF live lx pyg, of demo_world]
  from T have a: "snd (MarkdownIt_html demo_host demo_engine demo_doc_live False demo_world) = demo_world"
    by (rule conjunct1[OF conjunct1])
  from T have b: "MarkdownIt_html ?h' demo_engine demo_doc_live False demo_world =
       MarkdownIt_html demo_host demo_engine demo_doc_live False demo_world"
    by (rule conjunct1[OF conjunct2[OF conjunct1]])
  from T ok safe have c: "sublist ''<div><i>Solara execution is not enabled</i></div>'' ?html \<and> \<not> sublist ''<jupyter-widget'' ?html"
    by blast
  from T python have d: "snd (Markdown_html demo_host demo_engine demo_doc_live False demo_world) = demo_world"
    by blast
  from live ok a b c okm d show ?thesis by blast
qed

subsection \<open>Documents without live fences\<close>

text \<open>
  Claim C7. Rendering a document without live fences is deterministic: for both
  components, every source text and every configuration, the outcome (the same failure, or
  the same template and the same identity key) does not depend on the world the pass
  starts from, and the pass leaves the world as it found it; so a second pass over the
  same document with the same configuration yields the same HTML and the same key.
\<close>

theorem render_deterministic_without_live_fences:
  assumes "\<forall>b\<in>set (tokenize E (dedent md_text)). \<not> is_live_fence b"
  shows "fst (MarkdownIt h E md_text highlight u w) = fst (MarkdownIt h E md_text highlight u w')
       \<and> snd (MarkdownIt h E md_text highlight u w) = w
       \<and> fst (Markdown h E md_text u style w) = fst (Markdown h E md_text u style w')
       \<and> snd (Markdown h E md_text u style w) = w"
proof -
  note it = MarkdownIt_html_no_live[OF assms, of h u]
  note md = Markdown_html_no_live[OF assms, of h u]
  have "fst (MarkdownIt h E md_text highlight u w) = fst (MarkdownIt h E md_text highlight u w')"
    unfolding MarkdownIt_def using it[of w w'] it[of w' w']
    by (auto split: sum.splits prod.splits)
  moreover have "snd (MarkdownIt h E md_text highlight u w) = w"
    unfolding MarkdownIt_def using it[of w w]
    by (auto split: sum.splits prod.splits)
  moreover have "fst (Markdown h E md_text u style w) = fst (Markdown h E md_text u style w')"
    unfolding Markdown_def Let_def using md[of w w'] md[of w' w']
    by (auto split: sum.splits prod.splits)
  moreover have "snd (Markdown h E md_text u style w) = w"
    unfolding Markdown_def Let_def using md[of w w]
    by (auto split: sum.splits prod.splits)
  ultimately show ?thesis by blast
qed

theorem render_deterministic_without_live_fences_witness:
  "tokenize demo_engine (dedent demo_doc_plain) =
     [Other ''# Title'', Fence ''python'' (''print(1)'' @ [newline]) [], Other ''done'']
   \<and> fst (MarkdownIt demo_host demo_engine demo_doc_plain [1, 2] True demo_world) =
     fst (MarkdownIt demo_host demo_engine demo_doc_plain [1, 2] True
            (demo_world\<lparr>outside := 7, logged := [(''earlier'', Exception ''E'' [])]\<rparr>))
   \<and> snd (MarkdownIt demo_host demo_engine demo_doc_plain [1, 2] True demo_world) = demo_world
   \<and> fst (Markdown demo_host demo_engine demo_doc_plain True StyleNone demo_world) =
     fst (Markdown demo_host demo_engine demo_doc_plain True StyleNone
            (demo_world\<lparr>outside := 7, logged := [(''earlier'', Exception ''E'' [])]\<rparr>))
   \<and> snd (Markdown demo_host demo_engine demo_doc_plain True StyleNone demo_world) = demo_world"
proof -
  have tok: "tokenize demo_engine (dedent demo_doc_plain) =
     [Other ''# Title'', Fence ''python'' (''print(1)'' @ [newline]) [], Other ''done'']"
    by code_simp
  have nolive: "\<forall>b\<in>set (tokenize demo_engine (dedent demo_doc_plain)). \<not> is_live_fence b"
    unfolding tok by simp
  from render_deterministic_without_live_fences[OF nolive] tok show ?thesis by blast
qed

text \<open>
  Claim C8, as amended. For every document whose fenced blocks are all non-executable (none
  is tagged \<^verbatim>\<open>solara\<close>), whether execution is enabled or not: the render of either
  component changes nothing in the world (no code is run, no box is created, nothing is
  logged); it is the same render whatever the execution flag, the interpreter, the
  component call and the framework (any host \<open>h'\<close> with the same lexers and highlighter,
  any flag \<open>u'\<close>); and the module adds no widget reference: the HTML contains one only
  where the engine or the highlighter contributes part of one itself, as the engine does
  for a widget tag written in raw HTML in the document.
\<close>

theorem no_live_fence_no_widget_reference:
  assumes nolive: "\<forall>b\<in>set (tokenize E (dedent md_text)). \<not> is_live_fence b"
      and lx: "get_lexer_by_name h' = get_lexer_by_name h"
      and pyg: "pygments_highlight h' = pygments_highlight h"
  shows "snd (MarkdownIt_html h E md_text u w) = w
       \<and> MarkdownIt_html h' E md_text u' w = MarkdownIt_html h E md_text u w
       \<and> snd (Markdown_html h E md_text u w) = w
       \<and> Markdown_html h' E md_text u' w = Markdown_html h E md_text u w
       \<and> ((\<forall>b\<in>set (tokenize E (dedent md_text)). block_tag_safe h E b) \<longrightarrow>
            (\<forall>html. fst (MarkdownIt_html h E md_text u w) = Inr html \<longrightarrow>
               \<not> sublist ''<jupyter-widget'' html)
            \<and> (\<forall>html. fst (Markdown_html h E md_text u w) = Inr html \<longrightarrow>
               \<not> sublist ''<jupyter-widget'' html))"
proof -
  let ?bs = "tokenize E (dedent md_text)"
  have it: "\<not> sublist widget_ref_tag html"
    if safe: "\<forall>b\<in>set ?bs. block_tag_safe h E b"
      and ok: "fst (MarkdownIt_html h E md_text u w) = Inr html" for html
  proof -
    let ?route = "\<lambda>name::string. Some (\<lambda>code name attrs. highlight_fence h code name u attrs)"
    from ok obtain w' where r: "engine_render E ?route ?bs w = (Inr html, w')"
      unfolding MarkdownIt_html_def Let_def by (cases "engine_render E ?route ?bs w") auto
    have "tag_safe html"
    proof (rule engine_render_tag_safe[OF r safe])
      fix lang cb body attrs w1 fragment w2
      assume "?route lang = Some cb" and m: "Fence lang body attrs \<in> set ?bs"
        and c: "cb body lang attrs w1 = (Inr fragment, w2)"
      then have c': "highlight_fence h body lang u attrs w1 = (Inr fragment, w2)" by auto
      from nolive m have "lang \<noteq> ''solara''" by auto
      moreover from safe m have "\<forall>lexer. tag_safe (pygments_highlight h body lexer)" by auto
      ultimately show "tag_safe fragment"
        using c' by (auto simp: highlight_fence_not_live split: sum.splits)
    qed
    then show ?thesis by (rule tag_safe_no_widget_ref)
  qed
  have md: "\<not> sublist widget_ref_tag html"
    if safe: "\<forall>b\<in>set ?bs. block_tag_safe h E b"
      and ok: "fst (Markdown_html h E md_text u w) = Inr html" for html
  proof -
    let ?route = "map_of (custom_fences h E u)"
    from ok obtain w' where r: "engine_render E ?route ?bs w = (Inr html, w')"
      unfolding Markdown_html_def Let_def by (cases "engine_render E ?route ?bs w") auto
    have "tag_safe html"
    proof (rule engine_render_tag_safe[OF r safe])
      fix lang cb body attrs w1 fragment w2
      assume rt: "?route lang = Some cb" and m: "Fence lang body attrs \<in> set ?bs"
        and c: "cb body lang attrs w1 = (Inr fragment, w2)"
      from nolive m have "lang \<noteq> ''solara''" by auto
      moreover from safe m have "tag_safe (fence_div_format E body lang ''mermaid'')" by auto
      ultimately show "tag_safe fragment"
        using rt c by (auto dest!: custom_fences_route)
    qed
    then show ?thesis by (rule tag_safe_no_widget_ref)
  qed
  have a: "snd (MarkdownIt_html h E md_text u w) = w"
    using MarkdownIt_html_no_live[OF nolive, of h u w w] by (metis snd_conv)
  have b: "MarkdownIt_html h' E md_text u' w = MarkdownIt_html h E md_text u w"
    by (rule MarkdownIt_html_no_live_host[OF nolive lx pyg])
  have c: "snd (Markdown_html h E md_text u w) = w"
    using Markdown_html_no_live[OF nolive, of h u w w] by (metis snd_conv)
  have d: "Markdown_html h' E md_text u' w = Markdown_html h E md_text u w"
    by (rule Markdown_html_no_live_host[OF nolive])
  have tag: "widget_ref_tag = ''<jupyter-widget''" by (simp add: widget_ref_tag_def)
  from a b c d it md show ?thesis unfolding tag[symmetric] by blast
qed

text \<open>
  The claim as stated fails where the document itself holds a widget tag in raw HTML,
  which the engine passes through: the document below has one fence, tagged
  \<^verbatim>\<open>python\<close>, and the HTML of both components holds the widget tag of its first line.
\<close>

theorem no_live_fence_no_widget_reference_counterexample:
  "tokenize demo_raw_engine (dedent demo_doc_raw_plain) =
     [Other demo_raw_tag, Fence ''python'' (''print(1)'' @ [newline]) []]
   \<and> \<not> is_live_fence (Other demo_raw_tag)
   \<and> \<not> is_live_fence (Fence ''python'' (''print(1)'' @ [newline]) [])
   \<and> fst (MarkdownIt_html demo_host demo_raw_engine demo_doc_raw_plain True demo_world) =
       Inr (demo_raw_tag @ [newline] @ ''<pre><code>''
            @ demo_highlight (''print(1)'' @ [newline]) ''python''
            @ ''</code></pre>'' @ [newline])
   \<and> sublist ''<jupyter-widget''
        (demo_raw_tag @ [newline] @ ''<pre><code>''
            @ demo_highlight (''print(1)'' @ [newline]) ''python''
            @ ''</code></pre>'' @ [newline])
   \<and> fst (Markdown_html demo_host demo_raw_engine demo_doc_raw_plain True demo_world) =
       Inr (demo_raw_tag @ [newline]
            @ ''<pre>print(1)'' @ [newline] @ ''</pre>'' @ [newline])
   \<and> sublist ''<jupyter-widget''
        (demo_raw_tag @ [newline]
            @ ''<pre>print(1)'' @ [newline] @ ''</pre>'' @ [newline])"
  by code_simp

theorem no_live_fence_no_widget_reference_witness:
  "tokenize demo_engine (dedent demo_doc_plain) =
     [Other ''# Title'', Fence ''python'' (''print(1)'' @ [newline]) [], Other ''done'']
   \<and> fst (MarkdownIt_html demo_host demo_engine demo_doc_plain True demo_world) =
       Inr (''<p># Title</p>'' @ [newline] @ ''<pre><code>''
            @ demo_highlight (''print(1)'' @ [newline]) ''python''
            @ ''</code></pre>'' @ [newline] @ ''<p>done</p>'' @ [newline])
   \<and> \<not> sublist ''<jupyter-widget''
        (''<p># Title</p>'' @ [newline] @ ''<pre><code>''
            @ demo_highlight (''print(1)'' @ [newline]) ''python''
            @ ''</code></pre>'' @ [newline] @ ''<p>done</p>'' @ [newline])
   \<and> snd (MarkdownIt_html demo_host demo_engine demo_doc_plain True demo_world) = demo_world
   \<and> MarkdownIt_html (demo_host\<lparr>py_compile := \<lambda>code. Inl (Exception ''SyntaxError'' [])\<rparr>)
         demo_engine demo_doc_plain False demo_world =
       MarkdownIt_html demo_host demo_engine demo_doc_plain True demo_world
   \<and> fst (Markdown_html demo_host demo_engine demo_doc_plain True demo_world) =
       Inr (''<p># Title</p>'' @ [newline]
            @ ''<pre>print(1)'' @ [newline] @ ''</pre>'' @ [newline] @ ''<p>done</p>'' @ [newline])
   \<and> \<not> sublist ''<jupyter-widget''
        (''<p># Title</p>'' @ [newline]
            @ ''<pre>print(1)'' @ [newline] @ ''</pre>'' @ [newline] @ ''<p>done</p>'' @ [newline])
   \<and> snd (Markdown_html demo_host demo_engine demo_doc_plain True demo_world) = demo_world
   \<and> Markdown_html (demo_host\<lparr>py_compile := \<lambda>code. Inl (Exception ''SyntaxError'' [])\<rparr>)
         demo_engine demo_doc_plain False demo_world =
       Markdown_html demo_host demo_engine demo_doc_plain True demo_world"
proof -
  let ?h' = "demo_host\<lparr>py_compile := \<lambda>code. Inl (Exception ''SyntaxError'' [])\<rparr>"
  have tok: "tokenize demo_engine (dedent demo_doc_plain) =
     [Other ''# Title'', Fence ''python'' (''print(1)'' @ [newline]) [], Other ''done'']"
    by code_simp
  have nolive: "\<forall>b\<in>set (tokenize demo_engine (dedent demo_doc_plain)). \<not> is_live_fence b"
    unfolding tok by simp
  have lx: "get_lexer_by_name ?h' = get_lexer_by_name demo_host" by simp
  have pyg: "pygments_highlight ?h' = pygments_highlight demo_host" by simp
  have safe: "\<forall>b\<in>set (tokenize demo_engine (dedent demo_doc_plain)).
        block_tag_safe demo_host demo_engine b"
    unfolding tok
    by (simp add: demo_host_def demo_engine_def demo_highlight_def widget_ref_tag_def newline_def)
  have ok: "fst (MarkdownIt_html demo_host demo_engine demo_doc_plain True demo_world) =
       Inr (''<p># Title</p>'' @ [newline] @ ''<pre><code>''
            @ demo_highlight (''print(1)'' @ [newline]) ''python''
            @ ''</code></pre>'' @ [newline] @ ''<p>done</p>'' @ [newline])"
    by code_simp
  have okm: "fst (Markdown_html demo_host demo_engine demo_doc_plain True demo_world) =
       Inr (''<p># Title</p>'' @ [newline]
            @ ''<pre>print(1)'' @ [newline] @ ''</pre>'' @ [newline] @ ''<p>done</p>'' @ [newline])"
    by code_simp
  note T = no_live_fence_no_widget_reference[OF nolive lx pyg, of True demo_world False]
  from T tok ok okm safe show ?thesis by blast
qed

subsection \<open>The live-code executor\<close>

text \<open>
  Claim C3. Once the fence body has compiled and run, what \<^verbatim>\<open>_run_solara\<close> does is decided
  by the scope the code left: when \<^verbatim>\<open>app\<close> is bound, its value is the root rendered into
  the box, whether or not \<^verbatim>\<open>Page\<close> is bound too, and \<^verbatim>\<open>Page\<close> is not called (the result is
  the same for any behaviour \<open>g\<close> of calls); when only \<^verbatim>\<open>Page\<close> is bound, it is called with
  no arguments and the root is the result wrapped in \<^verbatim>\<open>ExceptionGuard\<close> inside
  \<^verbatim>\<open>_AppLayoutEmbed\<close>. The code runs in a fresh, empty scope: only the interpreter's
  behaviour on the empty scope matters (any \<open>f\<close> that agrees with it there gives the same
  result), so no variable of the caller is visible. \<^verbatim>\<open>ExceptionGuard\<close> with one child shows
  that child while no exception is reported, and the error card with the trace otherwise.
\<close>

theorem run_solara_entry_point:
  assumes comp: "py_compile h code = Inr ast"
      and exec: "py_exec h ast Map.empty (outside w) = (Inr local_scope, s1)"
  shows "(\<forall>app wid s2 s3.
            local_scope ''app'' = Some app \<and> Html_div h s1 = (wid, s2)
            \<and> solara_render h app s2 = (None, s3) \<longrightarrow>
            run_solara h code w =
              (Inr (widget_markup wid),
               w\<lparr>outside := s3, containers := containers w @ [(wid, Some app)]\<rparr>))
       \<and> (\<forall>P page s2 wid s3 s4.
            local_scope ''app'' = None \<and> local_scope ''Page'' = Some P
            \<and> py_call h P s1 = (Inr page, s2) \<and> Html_div h s2 = (wid, s3)
            \<and> solara_render h (AppLayoutEmbed_element [ExceptionGuard_element [page]]) s3 = (None, s4) \<longrightarrow>
            run_solara h code w =
              (Inr (widget_markup wid),
               w\<lparr>outside := s4,
                 containers := containers w
                   @ [(wid, Some (AppLayoutEmbed_element [ExceptionGuard_element [page]]))]\<rparr>))
       \<and> (\<forall>g. local_scope ''app'' \<noteq> None \<longrightarrow>
            run_solara (h\<lparr>py_call := g\<rparr>) code w = run_solara h code w)
       \<and> (\<forall>f. (\<forall>a s. f a Map.empty s = py_exec h a Map.empty s) \<longrightarrow>
            run_solara (h\<lparr>py_exec := f\<rparr>) code w = run_solara h code w)
       \<and> (\<forall>page e.
            ExceptionGuard h [page] None = Returned page
            \<and> ExceptionGuard h [page] (Some e) =
                ErrorCard (''Oops, an error occurred: '' @ py_str_exception e)
                  ''Exception details'' (format_exception h e))"
proof -
  have a: "run_solara h code w =
             (Inr (widget_markup wid),
              w\<lparr>outside := s3, containers := containers w @ [(wid, Some app)]\<rparr>)"
    if "local_scope ''app'' = Some app \<and> Html_div h s1 = (wid, s2)
          \<and> solara_render h app s2 = (None, s3)" for app wid s2 s3
    using that by (simp add: run_solara_def comp exec)
  have b: "run_solara h code w =
             (Inr (widget_markup wid),
              w\<lparr>outside := s4,
                containers := containers w
                  @ [(wid, Some (AppLayoutEmbed_element [ExceptionGuard_element [page]]))]\<rparr>)"
    if "local_scope ''app'' = None \<and> local_scope ''Page'' = Some P
          \<and> py_call h P s1 = (Inr page, s2) \<and> Html_div h s2 = (wid, s3)
          \<and> solara_render h (AppLayoutEmbed_element [ExceptionGuard_element [page]]) s3 = (None, s4)"
    for P page s2 wid s3 s4
    using that by (simp add: run_solara_def comp exec)
  have c: "run_solara (h\<lparr>py_call := g\<rparr>) code w = run_solara h code w"
    if "local_scope ''app'' \<noteq> None" for g
    using that by (auto simp: run_solara_def comp exec)
  have d: "run_solara (h\<lparr>py_exec := f\<rparr>) code w = run_solara h code w"
    if "\<forall>a s. f a (\<lambda>x. None) s = py_exec h a (\<lambda>x. None) s" for f
    using that by (simp add: run_solara_def comp exec split: option.splits sum.splits prod.splits)
  have e: "ExceptionGuard h [page] None = Returned page
            \<and> ExceptionGuard h [page] (Some e) =
                ErrorCard (''Oops, an error occurred: '' @ py_str_exception e)
                  ''Exception details'' (format_exception h e)" for page e
    by (simp add: ExceptionGuard_def)
  from a b c d e show ?thesis by blast
qed

theorem run_solara_entry_point_witness:
  "py_compile demo_host demo_app_and_page = Inr demo_app_and_page
   \<and> py_exec demo_host demo_app_and_page Map.empty (outside demo_world) =
       (Inr [''app'' \<mapsto> Object ''Button'', ''Page'' \<mapsto> Object ''Counter''], 2)
   \<and> Html_div demo_host 2 = (''box2'', 3)
   \<and> solara_render demo_host (Object ''Button'') 3 = (None, 3)
   \<and> run_solara demo_host demo_app_and_page demo_world =
       (Inr (widget_markup ''box2''),
        demo_world\<lparr>outside := 3,
          containers := containers demo_world @ [(''box2'', Some (Object ''Button''))]\<rparr>)
   \<and> run_solara (demo_host\<lparr>py_call := \<lambda>f n. (Inl (Exception ''Called'' []), n)\<rparr>)
         demo_app_and_page demo_world =
       run_solara demo_host demo_app_and_page demo_world
   \<and> run_solara (demo_host\<lparr>py_exec := demo_leaky_exec\<rparr>) demo_app_and_page demo_world =
       run_solara demo_host demo_app_and_page demo_world
   \<and> py_compile demo_host ''Page = Counter'' = Inr ''Page = Counter''
   \<and> py_exec demo_host ''Page = Counter'' Map.empty (outside demo_world) =
       (Inr [''Page'' \<mapsto> Object ''Counter''], 1)
   \<and> py_call demo_host (Object ''Counter'') 1 = (Inr (Object ''Counter()''), 2)
   \<and> solara_render demo_host
        (AppLayoutEmbed_element [ExceptionGuard_element [Object ''Counter()'']]) 3 = (None, 3)
   \<and> run_solara demo_host ''Page = Counter'' demo_world =
       (Inr (widget_markup ''box2''),
        demo_world\<lparr>outside := 3,
          containers := containers demo_world
            @ [(''box2'', Some (AppLayoutEmbed_element [ExceptionGuard_element [Object ''Counter()'']]))]\<rparr>)"
proof -
  have comp1: "py_compile demo_host demo_app_and_page = Inr demo_app_and_page"
    by (simp add: demo_host_def)
  have exec1: "py_exec demo_host demo_app_and_page Map.empty (outside demo_world) =
       (Inr [''app'' \<mapsto> Object ''Button'', ''Page'' \<mapsto> Object ''Counter''], 2)"
    by (simp add: demo_host_def demo_world_def demo_app_and_page_def join_lines_def
          demo_assignment_def newline_def)
  have box: "Html_div demo_host 2 = (''box2'', 3)"
    by (simp add: demo_host_def str_nat.simps digit_char_def)
  have rend1: "solara_render demo_host (Object ''Button'') 3 = (None, 3)"
    by (simp add: demo_host_def)
  have app1: "[''app'' \<mapsto> Object ''Button'', ''Page'' \<mapsto> Object ''Counter''] ''app''
               = Some (Object ''Button'')" by simp
  have leaky: "\<forall>a s. demo_leaky_exec a Map.empty s = py_exec demo_host a Map.empty s"
    by (simp add: demo_leaky_exec_def)
  have comp2: "py_compile demo_host ''Page = Counter'' = Inr ''Page = Counter''"
    by (simp add: demo_host_def)
  have exec2: "py_exec demo_host ''Page = Counter'' Map.empty (outside demo_world) =
       (Inr [''Page'' \<mapsto> Object ''Counter''], 1)"
    by (simp add: demo_host_def demo_world_def demo_assignment_def newline_def)
  have sc2: "[''Page'' \<mapsto> Object ''Counter''] ''app'' = None
             \<and> [''Page'' \<mapsto> Object ''Counter''] ''Page'' = Some (Object ''Counter'')" by simp
  have call2: "py_call demo_host (Object ''Counter'') 1 = (Inr (Object ''Counter()''), 2)"
    by (simp add: demo_host_def demo_call_def)
  have rend2: "solara_render demo_host
        (AppLayoutEmbed_element [ExceptionGuard_element [Object ''Counter()'']]) 3 = (None, 3)"
    by (simp add: demo_host_def)
  note T1 = run_solara_entry_point[OF comp1 exec1]
  note T2 = run_solara_entry_point[OF comp2 exec2]
  from T1 app1 box rend1 have r1: "run_solara demo_host demo_app_and_page demo_world =
       (Inr (widget_markup ''box2''),
        demo_world\<lparr>outside := 3,
          containers := containers demo_world @ [(''box2'', Some (Object ''Button''))]\<rparr>)"
    by blast
  from T1 app1 have r2: "run_solara (demo_host\<lparr>py_call := \<lambda>f n. (Inl (Exception ''Called'' []), n)\<rparr>)
         demo_app_and_page demo_world =
       run_solara demo_host demo_app_and_page demo_world"
    by (metis option.distinct(1))
  from T1 leaky have r3: "run_solara (demo_host\<lparr>py_exec := demo_leaky_exec\<rparr>) demo_app_and_page demo_world =
       run_solara demo_host demo_app_and_page demo_world"
    by blast
  from T2 sc2 call2 box rend2 have r4: "run_solara demo_host ''Page = Counter'' demo_world =
       (Inr (widget_markup ''box2''),
        demo_world\<lparr>outside := 3,
          containers := containers demo_world
            @ [(''box2'', Some (AppLayoutEmbed_element [ExceptionGuard_element [Object ''Counter()'']]))]\<rparr>)"
    by blast
  from comp1 exec1 box rend1 r1 r2 r3 comp2 exec2 call2 rend2 r4 show ?thesis by blast
qed

text \<open>
  Claim C6. For a live fence whose code binds \<^verbatim>\<open>app\<close>, with execution enabled (the lexer
  \<^verbatim>\<open>python\<close> registered, the code compiling and running, the framework rendering the
  tree): the fragment of the fence is the highlighted source followed by the widget
  markup, whose one tag \<^verbatim>\<open><jupyter-widget widget="IPY_MODEL_..."></jupyter-widget>\<close> carries
  the model id of the box created for this fence; that box, holding the value of
  \<^verbatim>\<open>app\<close>, is the one container added; the callback of \<^verbatim>\<open>Markdown\<close> returns the same.
  The fragment holds exactly one widget reference, the highlighted source holding no part
  of one and the id no \<^verbatim>\<open><\<close>.
\<close>

theorem live_fence_app_widget_reference:
  assumes python: "get_lexer_by_name h ''python'' = Inr lexer"
      and comp: "py_compile h src = Inr ast"
      and exec: "py_exec h ast Map.empty (outside w) = (Inr local_scope, s1)"
      and app: "local_scope ''app'' = Some app"
      and box: "Html_div h s1 = (widget_id, s2)"
      and rend: "solara_render h app s2 = (None, s3)"
  shows \<open>highlight_fence h src ''solara'' True extra w =
           (Inr (pygments_highlight h src lexer
                 @ ''<div class="solara-markdown-output v-card v-sheet elevation-7">''
                 @ ''<jupyter-widget widget="IPY_MODEL_'' @ widget_id
                 @ ''">loading widget...</jupyter-widget>''
                 @ ''<div class="v-messages">Live output</div></div>''),
            w\<lparr>outside := s3, containers := containers w @ [(widget_id, Some app)]\<rparr>)
       \<and> Markdown_highlight h True src ''solara'' extra w =
           highlight_fence h src ''solara'' True extra w
       \<and> (CHR ''<'' \<notin> set widget_id \<and> tag_safe (pygments_highlight h src lexer) \<longrightarrow>
            occurrences ''<jupyter-widget''
              (pygments_highlight h src lexer
                 @ ''<div class="solara-markdown-output v-card v-sheet elevation-7">''
                 @ ''<jupyter-widget widget="IPY_MODEL_'' @ widget_id
                 @ ''">loading widget...</jupyter-widget>''
                 @ ''<div class="v-messages">Live output</div></div>'') = 1)\<close>
proof -
  have run: "run_solara h src w =
      (Inr (widget_markup widget_id),
       w\<lparr>outside := s3, containers := containers w @ [(widget_id, Some app)]\<rparr>)"
    by (simp add: run_solara_def comp exec app box rend)
  then have hl: "highlight_fence h src ''solara'' True extra w =
           (Inr (pygments_highlight h src lexer @ widget_markup widget_id),
            w\<lparr>outside := s3, containers := containers w @ [(widget_id, Some app)]\<rparr>)"
    by (simp add: highlight_fence_def python)
  then have mh: "Markdown_highlight h True src ''solara'' extra w =
           highlight_fence h src ''solara'' True extra w"
    by (simp add: Markdown_highlight_def)
  have one: "occurrences widget_ref_tag
               (pygments_highlight h src lexer @ widget_markup widget_id) = 1"
    if "CHR ''<'' \<notin> set widget_id" and "tag_safe (pygments_highlight h src lexer)"
    using that by (simp add: occurrences_tag_safe occurrences_widget_markup)
  have markup: \<open>widget_markup widget_id =
      ''<div class="solara-markdown-output v-card v-sheet elevation-7">''
      @ ''<jupyter-widget widget="IPY_MODEL_'' @ widget_id
      @ ''">loading widget...</jupyter-widget>''
      @ ''<div class="v-messages">Live output</div></div>''\<close>
    by (rule widget_markup_def)
  have tag: "widget_ref_tag = ''<jupyter-widget''" by (rule widget_ref_tag_def)
  from hl mh one show ?thesis unfolding markup[symmetric] tag[symmetric] by blast
qed

theorem live_fence_app_widget_reference_witness:
  \<open>get_lexer_by_name demo_host ''python'' = Inr ''python''
   \<and> py_compile demo_host ''app = Button'' = Inr ''app = Button''
   \<and> py_exec demo_host ''app = Button'' Map.empty (outside demo_world) =
       (Inr [''app'' \<mapsto> Object ''Button''], 1)
   \<and> [''app'' \<mapsto> Object ''Button''] ''app'' = Some (Object ''Button'')
   \<and> Html_div demo_host 1 = (''box1'', 2)
   \<and> solara_render demo_host (Object ''Button'') 2 = (None, 2)
   \<and> highlight_fence demo_host ''app = Button'' ''solara'' True [] demo_world =
       (Inr (pygments_highlight demo_host ''app = Button'' ''python''
             @ ''<div class="solara-markdown-output v-card v-sheet elevation-7">''
             @ ''<jupyter-widget widget="IPY_MODEL_'' @ ''box1''
             @ ''">loading widget...</jupyter-widget>''
             @ ''<div class="v-messages">Live output</div></div>''),
        demo_world\<lparr>outside := 2, containers := containers demo_world @ [(''box1'', Some (Object ''Button''))]\<rparr>)
   \<and> Markdown_highlight demo_host True ''app = Button'' ''solara'' [] demo_world =
       highlight_fence demo_host ''app = Button'' ''solara'' True [] demo_world
   \<and> occurrences ''<jupyter-widget''
        (pygments_highlight demo_host ''app = Button'' ''python''
             @ ''<div class="solara-markdown-output v-card v-sheet elevation-7">''
             @ ''<jupyter-widget widget="IPY_MODEL_'' @ ''box1''
             @ ''">loading widget...</jupyter-widget>''
             @ ''<div class="v-messages">Live output</div></div>'') = 1\<close>
proof -
  have python: "get_lexer_by_name demo_host ''python'' = Inr ''python''"
    by (simp add: demo_host_def demo_get_lexer_def)
  have comp: "py_compile demo_host ''app = Button'' = Inr ''app = Button''"
    by (simp add: demo_host_def)
  have exec: "py_exec demo_host ''app = Button'' Map.empty (outside demo_world) =
       (Inr [''app'' \<mapsto> Object ''Button''], 1)"
    by (simp add: demo_host_def demo_world_def demo_assignment_def newline_def)
  have app: "[''app'' \<mapsto> Object ''Button''] ''app'' = Some (Object ''Button'')" by simp
  have box: "Html_div demo_host 1 = (''box1'', 2)"
    by (simp add: demo_host_def str_nat.simps digit_char_def)
  have rend: "solara_render demo_host (Object ''Button'') 2 = (None, 2)"
    by (simp add: demo_host_def)
  have id: "CHR ''<'' \<notin> set ''box1''" by simp
  have safe: "tag_safe (pygments_highlight demo_host ''app = Button'' ''python'')"
    by (simp add: demo_host_def demo_highlight_def widget_ref_tag_def newline_def)
  from live_fence_app_widget_reference[OF python comp exec app box rend, of "[]"]
    python comp exec app box rend id safe
  show ?thesis by blast
qed

subsection \<open>Failures of a fence\<close>

text \<open>
  Claim C1, as amended. For a live fence whose code binds neither \<^verbatim>\<open>app\<close> nor \<^verbatim>\<open>Page\<close>,
  rendered with execution enabled (the lexer \<^verbatim>\<open>python\<close> registered, the code compiling and
  running; the fence being the first live fence of the document, and what precedes it
  rendering): \<^verbatim>\<open>_run_solara\<close> fails with \<^verbatim>\<open>NameError("No Page of app defined")\<close>; in
  \<^verbatim>\<open>MarkdownIt\<close>, whose callback has no handler, the failure leaves the render, which
  produces no markup; in \<^verbatim>\<open>Markdown\<close> the callback catches it, logs it with the source and
  returns the \<^verbatim>\<open>repr\<close> of the exception as the fragment of the fence, and the rest of the
  document is rendered after it.
\<close>

theorem no_entry_point_NameError:
  assumes python: "get_lexer_by_name h ''python'' = Inr lexer"
      and comp: "py_compile h src = Inr ast"
      and exec: "py_exec h ast Map.empty (outside w) = (Inr local_scope, s1)"
      and neither: "local_scope ''app'' = None \<and> local_scope ''Page'' = None"
      and doc: "tokenize E (dedent md_text) = pre @ Fence ''solara'' src attrs # post"
      and nolive: "\<forall>b\<in>set pre. \<not> is_live_fence b"
      and pre_ok: "fst (engine_render E
                     (\<lambda>name. Some (\<lambda>code name attrs. highlight_fence h code name True attrs))
                     pre w) = Inr html_pre"
  shows "run_solara h src w = (Inl NameError_no_entry_point, w\<lparr>outside := s1\<rparr>)
       \<and> MarkdownIt h E md_text highlight True w =
           (Inl NameError_no_entry_point, w\<lparr>outside := s1\<rparr>)
       \<and> Markdown_highlight h True src ''solara'' [] w =
           (Inr (py_repr h NameError_no_entry_point),
            w\<lparr>outside := s1,
              logged := logged w @ [(''Error highlighting code: '' @ src, NameError_no_entry_point)]\<rparr>)
       \<and> (\<exists>html_before.
            Markdown_html h E md_text True w =
              (case engine_render E (map_of (custom_fences h E True)) post
                      (w\<lparr>outside := s1,
                         logged := logged w
                           @ [(''Error highlighting code: '' @ src, NameError_no_entry_point)]\<rparr>) of
                 (Inl e, w') \<Rightarrow> (Inl e, w')
               | (Inr rest, w') \<Rightarrow>
                   (Inr (html_before
                         @ fence_open E (Fence ''solara'' src attrs) (py_repr h NameError_no_entry_point)
                         @ py_repr h NameError_no_entry_point
                         @ fence_close E (Fence ''solara'' src attrs) (py_repr h NameError_no_entry_point)
                         @ rest), w')))"
proof -
  have run: "run_solara h src w = (Inl NameError_no_entry_point, w\<lparr>outside := s1\<rparr>)"
    using neither by (simp add: run_solara_def comp exec NameError_no_entry_point_def)
  then have hl: "highlight_fence h src ''solara'' True extra w =
                   (Inl NameError_no_entry_point, w\<lparr>outside := s1\<rparr>)" for extra
    by (simp add: highlight_fence_def python)
  have it: "MarkdownIt h E md_text highlight True w =
              (Inl NameError_no_entry_point, w\<lparr>outside := s1\<rparr>)"
    using MarkdownIt_html_fence_abort[OF doc nolive pre_ok hl]
    by (simp add: MarkdownIt_def)
  have cb: "Markdown_highlight h True src ''solara'' [] w =
           (Inr (py_repr h NameError_no_entry_point),
            w\<lparr>outside := s1,
              logged := logged w @ [(''Error highlighting code: '' @ src, NameError_no_entry_point)]\<rparr>)"
    using hl[of "[]"] by (simp add: Markdown_highlight_def NameError_no_entry_point_def)
  from run it cb Markdown_html_fence_fragment[OF doc nolive cb] show ?thesis by blast
qed

text \<open>
  The claim as stated fails for \<^verbatim>\<open>Markdown\<close>: on a document whose live fence holds
  \<^verbatim>\<open>x = 1\<close>, with execution enabled, the render returns its markup, with the \<^verbatim>\<open>repr\<close> of
  the \<^verbatim>\<open>NameError\<close> in place of the fence, and one record in the log.
\<close>

theorem no_entry_point_NameError_counterexample:
  "fst (Markdown demo_host demo_engine demo_doc_live True StyleNone demo_world) =
     Inr \<lparr>template =
            markdown_template
              (''<p>Intro</p>'' @ [newline] @ ''<pre><code>''
               @ ''NameError('No Page of app defined')'' @ ''</code></pre>'' @ [newline]) [],
          key = ''<p>Intro</p>'' @ [newline] @ ''<pre><code>''
               @ ''NameError('No Page of app defined')'' @ ''</code></pre>'' @ [newline]
               @ ''True''\<rparr>
   \<and> logged (snd (Markdown demo_host demo_engine demo_doc_live True StyleNone demo_world)) =
       [(''Error highlighting code: x = 1'' @ [newline],
         Exception ''NameError'' ''No Page of app defined'')]"
  by code_simp

theorem no_entry_point_NameError_witness:
  "get_lexer_by_name demo_host ''python'' = Inr ''python''
   \<and> py_compile demo_host (''x = 1'' @ [newline]) = Inr (''x = 1'' @ [newline])
   \<and> py_exec demo_host (''x = 1'' @ [newline]) Map.empty (outside demo_world) =
       (Inr [''x'' \<mapsto> Object ''1''], 1)
   \<and> tokenize demo_engine (dedent demo_doc_live) =
       [Other ''Intro''] @ Fence ''solara'' (''x = 1'' @ [newline]) [] # []
   \<and> run_solara demo_host (''x = 1'' @ [newline]) demo_world =
       (Inl NameError_no_entry_point, demo_world\<lparr>outside := 1\<rparr>)
   \<and> MarkdownIt demo_host demo_engine demo_doc_live [] True demo_world =
       (Inl NameError_no_entry_point, demo_world\<lparr>outside := 1\<rparr>)
   \<and> Markdown_highlight demo_host True (''x = 1'' @ [newline]) ''solara'' [] demo_world =
       (Inr (py_repr demo_host NameError_no_entry_point),
        demo_world\<lparr>outside := 1,
          logged := logged demo_world
            @ [(''Error highlighting code: '' @ (''x = 1'' @ [newline]), NameError_no_entry_point)]\<rparr>)"
proof -
  have python: "get_lexer_by_name demo_host ''python'' = Inr ''python''"
    by (simp add: demo_host_def demo_get_lexer_def)
  have comp: "py_compile demo_host (''x = 1'' @ [newline]) = Inr (''x = 1'' @ [newline])"
    by (simp add: demo_host_def)
  have exec: "py_exec demo_host (''x = 1'' @ [newline]) Map.empty (outside demo_world) =
       (Inr [''x'' \<mapsto> Object ''1''], 1)"
    by (simp add: demo_host_def demo_world_def demo_assignment_def newline_def)
  have neither: "[''x'' \<mapsto> Object ''1''] ''app'' = None \<and> [''x'' \<mapsto> Object ''1''] ''Page'' = None"
    by simp
  have doc: "tokenize demo_engine (dedent demo_doc_live) =
       [Other ''Intro''] @ Fence ''solara'' (''x = 1'' @ [newline]) [] # []"
    by code_simp
  have nolive: "\<forall>b\<in>set [Other ''Intro'']. \<not> is_live_fence b" by simp
  have pre_ok: "fst (engine_render demo_engine
                     (\<lambda>name. Some (\<lambda>code name attrs. highlight_fence demo_host code name True attrs))
                     [Other ''Intro''] demo_world) = Inr (render_other demo_engine ''Intro'')"
    by simp
  from no_entry_point_NameError[OF python comp exec neither doc nolive pre_ok, of "[]"]
    python comp exec doc
  show ?thesis by blast
qed




subsection \<open>Indentation\<close>

text \<open>
  Claim C9. Indentation is normalized before tokenizing: for every document text and every
  prefix of spaces and tabs (the whitespace \<^verbatim>\<open>textwrap.dedent\<close> knows), the text with that
  prefix in front of each of its lines dedents to the same text as the text itself, and
  both components render the prefixed document exactly as the unprefixed one.
\<close>

theorem dedent_before_tokenizing:
  assumes blank: "\<forall>c\<in>set p. is_blank c"
  shows "dedent (indent_lines p md_text) = dedent md_text
       \<and> MarkdownIt h E (indent_lines p md_text) highlight u w = MarkdownIt h E md_text highlight u w
       \<and> Markdown h E (indent_lines p md_text) u style w = Markdown h E md_text u style w"
  by (simp add: dedent_indent_lines[OF blank] MarkdownIt_def MarkdownIt_html_def
        Markdown_def Markdown_html_def)

theorem dedent_before_tokenizing_witness:
  "indent_lines ''    '' demo_doc_flush =
     join_lines [''    # Title'', ''    '', ''      ```python'', ''      print(1)'', ''      ```'']
   \<and> dedent (indent_lines ''    '' demo_doc_flush) =
       join_lines [''# Title'', '''', ''  ```python'', ''  print(1)'', ''  ```'']
   \<and> dedent (indent_lines ''    '' demo_doc_flush) = dedent demo_doc_flush
   \<and> MarkdownIt demo_host demo_engine (indent_lines ''    '' demo_doc_flush) [] False demo_world =
       MarkdownIt demo_host demo_engine demo_doc_flush [] False demo_world
   \<and> Markdown demo_host demo_engine (indent_lines ''    '' demo_doc_flush) False StyleNone demo_world =
       Markdown demo_host demo_engine demo_doc_flush False StyleNone demo_world"
proof -
  have blank: "\<forall>c\<in>set ''    ''. is_blank c" by (simp add: is_blank_def)
  have a: "indent_lines ''    '' demo_doc_flush =
     join_lines [''    # Title'', ''    '', ''      ```python'', ''      print(1)'', ''      ```'']"
    by code_simp
  have b: "dedent (indent_lines ''    '' demo_doc_flush) =
       join_lines [''# Title'', '''', ''  ```python'', ''  print(1)'', ''  ```'']"
    by code_simp
  from dedent_before_tokenizing[OF blank, of demo_doc_flush] a b show ?thesis by blast
qed

subsection \<open>The identity key\<close>

text \<open>
  Claim C4, as amended. The identity key of a \<^verbatim>\<open>MarkdownIt\<close> render is the SHA-256 digest
  of one string, the final HTML followed by \<^verbatim>\<open>str\<close> of the execution flag and \<^verbatim>\<open>repr\<close> of
  the highlight-line list, and that string determines the triple. So two renders that
  agree on all three share the key, and two keys are equal exactly when the triples are
  equal or SHA-256 collides on the two different strings: changing the flag or the list
  changes the hashed string, and changes the key unless the digest collides.
  \<^verbatim>\<open>Markdown\<close>, which takes no highlight-line list, hashes the pair (final HTML, execution
  flag) in the same way.
\<close>

theorem identity_key_of_configuration:
  "map_sum id key (fst (MarkdownIt h E md_text hl u w)) =
     map_sum id (\<lambda>html. sha256_hexdigest h (html @ str_bool u @ repr_int_list hl))
       (fst (MarkdownIt_html h E md_text u w))
   \<and> map_sum id key (fst (Markdown h E md_text u style w)) =
       map_sum id (\<lambda>html. sha256_hexdigest h (html @ str_bool u))
         (fst (Markdown_html h E md_text u w))
   \<and> MarkdownIt_key h html u hl = sha256_hexdigest h (html @ str_bool u @ repr_int_list hl)
   \<and> Markdown_key h html u = sha256_hexdigest h (html @ str_bool u)
   \<and> ((html @ str_bool u @ repr_int_list hl = html' @ str_bool u' @ repr_int_list hl')
        = (html = html' \<and> u = u' \<and> hl = hl'))
   \<and> ((html @ str_bool u = html' @ str_bool u') = (html = html' \<and> u = u'))
   \<and> ((MarkdownIt_key h html u hl = MarkdownIt_key h html' u' hl')
        = ((html = html' \<and> u = u' \<and> hl = hl')
           \<or> collides (sha256_hexdigest h)
                (html @ str_bool u @ repr_int_list hl) (html' @ str_bool u' @ repr_int_list hl')))
   \<and> ((Markdown_key h html u = Markdown_key h html' u')
        = ((html = html' \<and> u = u')
           \<or> collides (sha256_hexdigest h) (html @ str_bool u) (html' @ str_bool u')))"
proof -
  have it: "map_sum id key (fst (MarkdownIt h E md_text hl u w)) =
     map_sum id (\<lambda>html. sha256_hexdigest h (html @ str_bool u @ repr_int_list hl))
       (fst (MarkdownIt_html h E md_text u w))"
    by (simp add: MarkdownIt_def MarkdownIt_key_def split: prod.splits sum.splits)
  have md: "map_sum id key (fst (Markdown h E md_text u style w)) =
       map_sum id (\<lambda>html. sha256_hexdigest h (html @ str_bool u))
         (fst (Markdown_html h E md_text u w))"
    by (simp add: Markdown_def Markdown_key_def split: prod.splits sum.splits)
  have k1: "MarkdownIt_key h html u hl = sha256_hexdigest h (html @ str_bool u @ repr_int_list hl)"
    by (simp add: MarkdownIt_key_def)
  have k2: "Markdown_key h html u = sha256_hexdigest h (html @ str_bool u)"
    by (simp add: Markdown_key_def)
  have inj: "(html @ str_bool u @ repr_int_list hl = html' @ str_bool u' @ repr_int_list hl')
        = (html = html' \<and> u = u' \<and> hl = hl')"
    using hashed_string_inj by blast
  have pair: "(html @ str_bool u = html' @ str_bool u') = (html = html' \<and> u = u')"
    using str_bool_suffix by blast
  have e1: "(MarkdownIt_key h html u hl = MarkdownIt_key h html' u' hl')
        = ((html = html' \<and> u = u' \<and> hl = hl')
           \<or> collides (sha256_hexdigest h)
                (html @ str_bool u @ repr_int_list hl) (html' @ str_bool u' @ repr_int_list hl'))"
    using inj unfolding collides_def MarkdownIt_key_def by blast
  have e2: "(Markdown_key h html u = Markdown_key h html' u')
        = ((html = html' \<and> u = u')
           \<or> collides (sha256_hexdigest h) (html @ str_bool u) (html' @ str_bool u'))"
    using pair unfolding collides_def Markdown_key_def by blast
  from it md k1 k2 inj pair e1 e2 show ?thesis by blast
qed

text \<open>
  The claim as stated, that a change of the highlight-line list always yields a different
  key, fails by counting: a digest of 64 characters, as the hexadecimal SHA-256 digest is,
  takes finitely many values, and there are infinitely many highlight-line lists. For
  every HTML and flag, two different lists have the same key. And the key of a
  \<^verbatim>\<open>Markdown\<close> render is not computed over a triple: what line 220 hashes is the HTML
  followed by \<^verbatim>\<open>str\<close> of the flag, with no highlight-line list.
\<close>

theorem identity_key_of_configuration_counterexample:
  "(\<forall>(h :: (unit, unit, unit, unit) host) html u.
      (\<exists>s. length (sha256_hexdigest h s) \<noteq> 64)
      \<or> (\<exists>hl hl'. hl \<noteq> hl' \<and> MarkdownIt_key h html u hl = MarkdownIt_key h html u hl'))
   \<and> fst (Markdown_html demo_host demo_engine demo_doc_plain True demo_world) =
       Inr (''<p># Title</p>'' @ [newline]
            @ ''<pre>print(1)'' @ [newline] @ ''</pre>'' @ [newline] @ ''<p>done</p>'' @ [newline])
   \<and> map_sum id key (fst (Markdown demo_host demo_engine demo_doc_plain True StyleNone demo_world)) =
       Inr (sha256_hexdigest demo_host
              (''<p># Title</p>'' @ [newline]
               @ ''<pre>print(1)'' @ [newline] @ ''</pre>'' @ [newline] @ ''<p>done</p>'' @ [newline]
               @ ''True''))"
proof -
  have "\<forall>(h :: (unit, unit, unit, unit) host) html u.
      (\<exists>s. length (sha256_hexdigest h s) \<noteq> 64)
      \<or> (\<exists>hl hl'. hl \<noteq> hl' \<and> MarkdownIt_key h html u hl = MarkdownIt_key h html u hl')"
    using key_collision_exists by blast
  moreover have "fst (Markdown_html demo_host demo_engine demo_doc_plain True demo_world) =
       Inr (''<p># Title</p>'' @ [newline]
            @ ''<pre>print(1)'' @ [newline] @ ''</pre>'' @ [newline] @ ''<p>done</p>'' @ [newline])"
    by code_simp
  moreover have "map_sum id key (fst (Markdown demo_host demo_engine demo_doc_plain True StyleNone demo_world)) =
       Inr (sha256_hexdigest demo_host
              (''<p># Title</p>'' @ [newline]
               @ ''<pre>print(1)'' @ [newline] @ ''</pre>'' @ [newline] @ ''<p>done</p>'' @ [newline]
               @ ''True''))"
    by code_simp
  ultimately show ?thesis by blast
qed

theorem identity_key_of_configuration_witness:
  "MarkdownIt_key demo_host ''<p>x</p>'' True [1, 2] = ''<p>x</p>True[1, 2]''
   \<and> \<not> collides (sha256_hexdigest demo_host)
        (''<p>x</p>'' @ str_bool True @ repr_int_list [1, 2])
        (''<p>x</p>'' @ str_bool True @ repr_int_list [1, 3])
   \<and> \<not> collides (sha256_hexdigest demo_host)
        (''<p>x</p>'' @ str_bool True @ repr_int_list [1, 2])
        (''<p>x</p>'' @ str_bool False @ repr_int_list [1, 2])
   \<and> MarkdownIt_key demo_host ''<p>x</p>'' True [1, 2] \<noteq> MarkdownIt_key demo_host ''<p>x</p>'' True [1, 3]
   \<and> MarkdownIt_key demo_host ''<p>x</p>'' True [1, 2] \<noteq> MarkdownIt_key demo_host ''<p>x</p>'' False [1, 2]
   \<and> fst (Markdown_html demo_host demo_engine demo_doc_plain True demo_world) =
       Inr (''<p># Title</p>'' @ [newline]
            @ ''<pre>print(1)'' @ [newline] @ ''</pre>'' @ [newline] @ ''<p>done</p>'' @ [newline])
   \<and> map_sum id key (fst (Markdown demo_host demo_engine demo_doc_plain True StyleNone demo_world)) =
       Inr (sha256_hexdigest demo_host
              ((''<p># Title</p>'' @ [newline]
                @ ''<pre>print(1)'' @ [newline] @ ''</pre>'' @ [newline] @ ''<p>done</p>'' @ [newline])
               @ str_bool True))
   \<and> fst (MarkdownIt_html demo_host demo_engine demo_doc_plain True demo_world) =
       Inr (''<p># Title</p>'' @ [newline] @ ''<pre><code>''
            @ demo_highlight (''print(1)'' @ [newline]) ''python''
            @ ''</code></pre>'' @ [newline] @ ''<p>done</p>'' @ [newline])
   \<and> map_sum id key (fst (MarkdownIt demo_host demo_engine demo_doc_plain [1, 2] True demo_world)) =
       Inr (sha256_hexdigest demo_host
              ((''<p># Title</p>'' @ [newline] @ ''<pre><code>''
                @ demo_highlight (''print(1)'' @ [newline]) ''python''
                @ ''</code></pre>'' @ [newline] @ ''<p>done</p>'' @ [newline])
               @ str_bool True @ repr_int_list [1, 2]))"
proof -
  let ?hm = "''<p># Title</p>'' @ [newline]
            @ ''<pre>print(1)'' @ [newline] @ ''</pre>'' @ [newline] @ ''<p>done</p>'' @ [newline]"
  let ?hi = "''<p># Title</p>'' @ [newline] @ ''<pre><code>''
            @ demo_highlight (''print(1)'' @ [newline]) ''python''
            @ ''</code></pre>'' @ [newline] @ ''<p>done</p>'' @ [newline]"
  have c1: "\<not> collides (sha256_hexdigest demo_host)
        (''<p>x</p>'' @ str_bool True @ repr_int_list [1, 2])
        (''<p>x</p>'' @ str_bool True @ repr_int_list [1, 3])"
    by (simp add: collides_def demo_host_def)
  have c2: "\<not> collides (sha256_hexdigest demo_host)
        (''<p>x</p>'' @ str_bool True @ repr_int_list [1, 2])
        (''<p>x</p>'' @ str_bool False @ repr_int_list [1, 2])"
    by (simp add: collides_def demo_host_def)
  have k: "MarkdownIt_key demo_host ''<p>x</p>'' True [1, 2] = ''<p>x</p>True[1, 2]''"
    by code_simp
  have d1: "[1, 2] \<noteq> [1, 3::int]" and d2: "True \<noteq> False" by simp_all
  from identity_key_of_configuration[of demo_host demo_engine demo_doc_plain "[1, 2]" True
      demo_world StyleNone "''<p>x</p>''" "''<p>x</p>''" True "[1, 3]"]
    c1 d1
  have n1: "MarkdownIt_key demo_host ''<p>x</p>'' True [1, 2] \<noteq> MarkdownIt_key demo_host ''<p>x</p>'' True [1, 3]"
    by blast
  note T = identity_key_of_configuration[of demo_host demo_engine demo_doc_plain "[1, 2]" True
      demo_world StyleNone "''<p>x</p>''" "''<p>x</p>''" False "[1, 2]"]
  from T c2 d2
  have n2: "MarkdownIt_key demo_host ''<p>x</p>'' True [1, 2] \<noteq> MarkdownIt_key demo_host ''<p>x</p>'' False [1, 2]"
    by blast
  have okm: "fst (Markdown_html demo_host demo_engine demo_doc_plain True demo_world) = Inr ?hm"
    by code_simp
  have oki: "fst (MarkdownIt_html demo_host demo_engine demo_doc_plain True demo_world) = Inr ?hi"
    by code_simp
  have ti: "map_sum id key (fst (MarkdownIt demo_host demo_engine demo_doc_plain [1, 2] True demo_world)) =
     map_sum id (\<lambda>html. sha256_hexdigest demo_host (html @ str_bool True @ repr_int_list [1, 2]))
       (fst (MarkdownIt_html demo_host demo_engine demo_doc_plain True demo_world))"
    by (rule conjunct1[OF T])
  have tm: "map_sum id key (fst (Markdown demo_host demo_engine demo_doc_plain True StyleNone demo_world)) =
       map_sum id (\<lambda>html. sha256_hexdigest demo_host (html @ str_bool True))
         (fst (Markdown_html demo_host demo_engine demo_doc_plain True demo_world))"
    by (rule conjunct1[OF conjunct2[OF T]])
  have km: "map_sum id key (fst (Markdown demo_host demo_engine demo_doc_plain True StyleNone demo_world)) =
       Inr (sha256_hexdigest demo_host (?hm @ str_bool True))"
    unfolding tm okm by (simp only: map_sum.simps)
  have ki: "map_sum id key (fst (MarkdownIt demo_host demo_engine demo_doc_plain [1, 2] True demo_world)) =
       Inr (sha256_hexdigest demo_host (?hi @ str_bool True @ repr_int_list [1, 2]))"
    unfolding ti oki by (simp only: map_sum.simps)
  from k c1 c2 n1 n2 okm km oki ki show ?thesis by blast
qed

end
